theory Spec2Isabelle
  imports Complex_Main "HOL-Library.Sublist"
begin

section \<open>The live session engine of the LiveSession component\<close>

text \<open>
  The development embeds the live session engine of \<^verbatim>\<open>LiveSession\<close>
  (\<^verbatim>\<open>src/unnamed/part_001\<close>): the \<^verbatim>\<open>onmessage\<close> callback with its
  interruption branch, tool-call loop and playback scheduling, and the lifecycle functions
  \<^verbatim>\<open>startSession\<close>, \<^verbatim>\<open>stopSession\<close>, \<^verbatim>\<open>cleanupAudio\<close>,
  \<^verbatim>\<open>cleanupVideo\<close>, \<^verbatim>\<open>startVideo\<close> and \<^verbatim>\<open>stopVideo\<close>.

  Conventions of the embedding.
  \<^item> React state variables and \<^verbatim>\<open>useRef\<close> cells are the fields of one record,
    passed in and returned updated.
  \<^item> Calls into the platform (Web Audio, media devices, the channel) are appended to a
    trace of effects, in program order.
  \<^item> Times on the output clock are JavaScript numbers; they are modelled as reals, so the
    rounding of floating-point addition is not represented.
  \<^item> A callback runs to completion on one clock reading: the interleaving of other
    callbacks at an \<^verbatim>\<open>await\<close> is not represented, except in \<^verbatim>\<open>startSession\<close>,
    which is given in the two stretches before and after its \<^verbatim>\<open>await\<close>.
  \<^item> What the platform or a remote service answers (random numbers, the search service,
    the audio decoder, number formatting) is a field of an environment record.
\<close>

subsection \<open>JavaScript values\<close>

datatype jsval =
    JUndefined
  | JNull
  | JBool bool
  | JNum real
  | JStr string
  | JArr "jsval list"
  | JObj "(string \<times> jsval) list"

text \<open>A thrown value: a \<^verbatim>\<open>TypeError\<close> of the runtime, or the error a collaborator
  rejects with.\<close>

datatype js_error = TypeError | Rejected string

definition bind_err :: "'e + 'a \<Rightarrow> ('a \<Rightarrow> 'e + 'b) \<Rightarrow> 'e + 'b" where
  "bind_err m f = (case m of Inl e \<Rightarrow> Inl e | Inr a \<Rightarrow> f a)"

text \<open>Truthiness, as \<^verbatim>\<open>||\<close> and \<^verbatim>\<open>if\<close> test it (no NaN arrives in JSON).\<close>

fun truthy :: "jsval \<Rightarrow> bool" where
  "truthy JUndefined = False"
| "truthy JNull = False"
| "truthy (JBool b) = b"
| "truthy (JNum r) = (r \<noteq> 0)"
| "truthy (JStr s) = (s \<noteq> [])"
| "truthy (JArr xs) = True"
| "truthy (JObj kvs) = True"

definition js_or :: "jsval \<Rightarrow> jsval \<Rightarrow> jsval" where
  "js_or a b = (if truthy a then a else b)"

definition obj_get :: "(string \<times> jsval) list \<Rightarrow> string \<Rightarrow> jsval" where
  "obj_get kvs k = (case map_of kvs k of None \<Rightarrow> JUndefined | Some v \<Rightarrow> v)"

text \<open>Property access \<^verbatim>\<open>v.k\<close>: it throws on \<^verbatim>\<open>undefined\<close> and \<^verbatim>\<open>null\<close>;
  on a primitive or an array the property names read by this program
  (\<^verbatim>\<open>location\<close>, \<^verbatim>\<open>temp\<close>, \<^verbatim>\<open>condition\<close>, \<^verbatim>\<open>symbol\<close>, \<^verbatim>\<open>price\<close>,
  \<^verbatim>\<open>title\<close>, \<^verbatim>\<open>content\<close>) are absent and read as \<^verbatim>\<open>undefined\<close>.\<close>

fun js_get :: "jsval \<Rightarrow> string \<Rightarrow> js_error + jsval" where
  "js_get JUndefined k = Inl TypeError"
| "js_get JNull k = Inl TypeError"
| "js_get (JObj kvs) k = Inr (obj_get kvs k)"
| "js_get v k = Inr JUndefined"

text \<open>\<^verbatim>\<open>String.prototype.toLowerCase\<close> on the ASCII letters, and
  \<^verbatim>\<open>String.prototype.includes\<close>.\<close>

definition lower_char :: "char \<Rightarrow> char" where
  "lower_char c =
     (let n = (of_char c :: nat) in if 65 \<le> n \<and> n \<le> 90 then char_of (n + 32) else c)"

definition toLowerCase :: "string \<Rightarrow> string" where
  "toLowerCase s = map lower_char s"

fun includes_str :: "string \<Rightarrow> string \<Rightarrow> bool" where
  "includes_str [] sub = (sub = [])"
| "includes_str (c # cs) sub = (prefix sub (c # cs) \<or> includes_str cs sub)"

text \<open>A template literal, kept as its parts: the string an interpolated value converts
  to is not computed, but whether the conversion throws is. Converting a value that came in
  as JSON throws a \<^verbatim>\<open>TypeError\<close> exactly when it is an object with a member named
  \<^verbatim>\<open>toString\<close> (the member hides \<^verbatim>\<open>Object.prototype.toString\<close> and is not
  callable), or an array with such an element: an array converts by joining the conversions
  of its elements. The addition \<^verbatim>\<open>v + number\<close> throws for the same values.\<close>

datatype tpart = Lit string | Interp jsval

type_synonym template = "tpart list"

fun stringifiable :: "jsval \<Rightarrow> bool" where
  "stringifiable (JArr xs) = list_all stringifiable xs"
| "stringifiable (JObj kvs) = (map_of kvs ''toString'' = None)"
| "stringifiable v = True"

subsection \<open>Data of the component\<close>

datatype AppMode = LIVE | CHAT | TERMINAL

datatype log_type = Info | Tool | Error | Thought

text \<open>A \<^verbatim>\<open>LogEntry\<close> without its wall-clock \<^verbatim>\<open>time\<close> field.\<close>

type_synonym log_entry = "template \<times> log_type"

datatype task_status = Idle | Opening | Searching | Processing | Payment | Completed

record TaskState =
  task_isActive :: bool
  appName :: "jsval option"
  actionDescription :: "template option"
  task_status :: task_status
  details :: "jsval option"

definition idle_task :: TaskState where
  "idle_task = \<lparr>task_isActive = False, appName = None, actionDescription = None,
                 task_status = Idle, details = None\<rparr>"

text \<open>The three state updaters handed to \<^verbatim>\<open>setTimeout\<close>.\<close>

datatype task_update = MarkCompleted | ResetIdle | AwaitPayment

fun apply_update :: "task_update \<Rightarrow> TaskState \<Rightarrow> TaskState" where
  "apply_update MarkCompleted prev = prev\<lparr>task_status := Completed\<rparr>"
| "apply_update ResetIdle prev = idle_task"
| "apply_update AwaitPayment prev =
     prev\<lparr>task_status := Payment, actionDescription := Some [Lit ''Awaiting Authorization'']\<rparr>"

text \<open>An entry of a stock widget's history: \<^verbatim>\<open>(data.price || 100) + r\<close> is a numeric
  sum when the left operand is a number, a boolean or \<^verbatim>\<open>null\<close>; otherwise (a string
  concatenation, or NaN for \<^verbatim>\<open>undefined\<close>) it is left unevaluated. The caller checks
  first that the left operand converts without throwing.\<close>

datatype hist_entry = HNum real | HOther jsval real

fun js_plus :: "jsval \<Rightarrow> real \<Rightarrow> hist_entry" where
  "js_plus (JNum p) r = HNum (p + r)"
| "js_plus (JBool b) r = HNum ((if b then 1 else 0) + r)"
| "js_plus JNull r = HNum r"
| "js_plus v r = HOther v r"

datatype WidgetData =
    Weather (w_location: jsval) (w_temp: jsval) (w_condition: jsval)
  | Stock (s_symbol: jsval) (s_price: jsval) (s_history: "hist_entry list")
  | MapView (m_location: jsval) (m_lat: real) (m_lng: real)
  | Note (n_title: jsval) (n_content: jsval)

record FunctionCall =
  fc_id :: string
  fc_name :: string
  fc_args :: "(string \<times> jsval) list option"

record FunctionResponse =
  resp_id :: string
  resp_name :: string
  response :: jsval

text \<open>A server message as \<^verbatim>\<open>onmessage\<close> reads it: \<^verbatim>\<open>inlineData\<close> is the
  \<^verbatim>\<open>data\<close> string of a part's inline data when the part has one, \<^verbatim>\<open>interrupted\<close> the
  truth value of \<^verbatim>\<open>serverContent.interrupted\<close>, and \<^verbatim>\<open>toolCall\<close> the
  \<^verbatim>\<open>functionCalls\<close> of \<^verbatim>\<open>message.toolCall\<close> when the message has a tool call.\<close>

record Part =
  inlineData :: "string option"

record ServerContent =
  interrupted :: bool
  modelTurn :: "Part list option"

record LiveServerMessage =
  serverContent :: "ServerContent option"
  toolCall :: "FunctionCall list option"

type_synonym handle = nat

text \<open>A decoded \<^verbatim>\<open>AudioBuffer\<close>: \<^verbatim>\<open>onmessage\<close> asks for one channel at 24000 Hz,
  and the buffer's duration is its frame count over that rate.\<close>

record AudioBuffer =
  frames :: nat

definition duration :: "AudioBuffer \<Rightarrow> real" where
  "duration b = real (frames b) / 24000"

datatype effect =
    SourceStart handle real AudioBuffer
  | SourceStop handle
  | NodeDisconnect handle
  | TracksStop handle
  | ContextClose handle
  | SessionConnect handle
  | SessionClose handle
  | IntervalClear handle

text \<open>What the surroundings answer. \<^verbatim>\<open>decodeAudio\<close> stands for
  \<^verbatim>\<open>decodeAudioData(decodeBase64(data), outputCtx, 24000, 1)\<close>, whose module
  (\<^verbatim>\<open>utils/audioUtils\<close>) is not part of the sources at hand; \<^verbatim>\<open>random\<close> is the
  stream of \<^verbatim>\<open>Math.random()\<close> results; \<^verbatim>\<open>toFixed2\<close> is
  \<^verbatim>\<open>Number.prototype.toFixed(2)\<close>; \<^verbatim>\<open>generateTextResponse\<close> is the search
  collaborator, returning text and sources or rejecting.\<close>

record env =
  onSetReminder :: bool
  onChangeTab :: bool
  random :: "nat \<Rightarrow> real"
  toFixed2 :: "real \<Rightarrow> string"
  generateTextResponse :: "jsval \<Rightarrow> js_error + (string \<times> jsval)"
  decodeAudio :: "string \<Rightarrow> js_error + AudioBuffer"

text \<open>The state of the component: the React state variables, the \<^verbatim>\<open>useRef\<close> cells,
  and what the component has done to its surroundings: the trace of platform calls, the
  entries passed to \<^verbatim>\<open>onLog\<close>, the values given to \<^verbatim>\<open>console.error\<close>, the pending
  \<^verbatim>\<open>setTimeout\<close> updaters with their delays, the tool responses sent, the calls of the
  two optional callbacks, the position in the random stream and the next fresh handle.\<close>

record session =
  isActive :: bool
  isCameraActive :: bool
  status :: string
  volume :: real
  task :: TaskState
  activeWidget :: "WidgetData option"
  inputContextRef :: "handle option"
  outputContextRef :: "handle option"
  sessionPromiseRef :: "handle option"
  scriptProcessorRef :: "handle option"
  sourceNodeRef :: "handle option"
  audioStreamRef :: "handle option"
  nextStartTimeRef :: real
  sourcesRef :: "handle list"
  videoStreamRef :: "handle option"
  frameIntervalRef :: "handle option"
  effects :: "effect list"
  logs :: "log_entry list"
  consoleErrors :: "js_error list"
  timers :: "(nat \<times> task_update) list"
  sent :: "FunctionResponse list"
  reminders :: "(jsval \<times> jsval) list"
  tabChanges :: "AppMode list"
  rng :: nat
  nextHandle :: handle

definition addLog :: "template \<Rightarrow> log_type \<Rightarrow> session \<Rightarrow> session" where
  "addLog msg ty s = s\<lparr>logs := logs s @ [(msg, ty)]\<rparr>"

definition setTimeout :: "task_update \<Rightarrow> nat \<Rightarrow> session \<Rightarrow> session" where
  "setTimeout u ms s = s\<lparr>timers := timers s @ [(ms, u)]\<rparr>"

definition emit :: "effect \<Rightarrow> session \<Rightarrow> session" where
  "emit x s = s\<lparr>effects := effects s @ [x]\<rparr>"

subsection \<open>The tool handlers\<close>

text \<open>\<^verbatim>\<open>fc.args[k]\<close>: a \<^verbatim>\<open>TypeError\<close> when the call carries no \<^verbatim>\<open>args\<close> object.\<close>

definition arg :: "FunctionCall \<Rightarrow> string \<Rightarrow> js_error + jsval" where
  "arg fc k = (case fc_args fc of None \<Rightarrow> Inl TypeError | Some kvs \<Rightarrow> Inr (obj_get kvs k))"

definition result_of :: "string \<Rightarrow> jsval" where
  "result_of msg = JObj [(''result'', JStr msg)]"

text \<open>The four branches on \<^verbatim>\<open>widget_type\<close>, with the number of \<^verbatim>\<open>Math.random()\<close>
  calls made; \<open>r\<close> is the position in the random stream. No branch is taken, and
  \<^verbatim>\<open>data\<close> is not read, for any other discriminator. In the stock branch the first
  history entry is computed after its random number has been drawn, and throws when the
  price does not convert.\<close>

definition widget_of ::
  "env \<Rightarrow> nat \<Rightarrow> jsval \<Rightarrow> jsval \<Rightarrow> (js_error + WidgetData option) \<times> nat" where
  "widget_of e r ty data =
     (if ty = JStr ''weather_card'' then
        (bind_err (js_get data ''location'') (\<lambda>l.
         bind_err (js_get data ''temp'') (\<lambda>t.
         bind_err (js_get data ''condition'') (\<lambda>c.
           Inr (Some (Weather (js_or l (JStr ''Unknown'')) (js_or t (JNum 22))
                              (js_or c (JStr ''Sunny''))))))), 0)
      else if ty = JStr ''stock_chart'' then
        (case js_get data ''symbol'' of
           Inl err \<Rightarrow> (Inl err, 0)
         | Inr sy \<Rightarrow>
             (case js_get data ''price'' of
                Inl err \<Rightarrow> (Inl err, 0)
              | Inr p \<Rightarrow>
                  if \<not> stringifiable (js_or p (JNum 100)) then (Inl TypeError, 1)
                  else
                    (Inr (Some (Stock (js_or sy (JStr ''STK'')) (js_or p (JNum 100))
                       (map (\<lambda>i. js_plus (js_or p (JNum 100)) (random e (r + i) * 10 - 5))
                            [0..<10]))), 10)))
      else if ty = JStr ''map_view'' then
        (bind_err (js_get data ''location'') (\<lambda>l.
           Inr (Some (MapView l 35.6762 139.6503))), 0)
      else if ty = JStr ''note_pad'' then
        (bind_err (js_get data ''title'') (\<lambda>ti.
         bind_err (js_get data ''content'') (\<lambda>c.
           Inr (Some (Note (js_or ti (JStr ''Note'')) (js_or c (JStr [])))))), 0)
      else (Inr None, 0))"

text \<open>The \<^verbatim>\<open>render_widget\<close> branch. The log line \<^verbatim>\<open>Rendering UI: ${type}\<close> converts
  the discriminator to a string inside the \<^verbatim>\<open>try\<close>, after the widget has been set.\<close>

definition render_widget :: "env \<Rightarrow> FunctionCall \<Rightarrow> session \<Rightarrow> session \<times> (js_error + jsval)" where
  "render_widget e fc s =
     (case fc_args fc of
        None \<Rightarrow> (s, Inl TypeError)
      | Some kvs \<Rightarrow>
          let ty = obj_get kvs ''widget_type''; data = obj_get kvs ''data'' in
          (case widget_of e (rng s) ty data of
             (Inl err, n) \<Rightarrow> (s\<lparr>rng := rng s + n\<rparr>, Inl err)
           | (Inr w, n) \<Rightarrow>
               let s1 = s\<lparr>rng := rng s + n\<rparr>;
                   s2 = (case w of None \<Rightarrow> s1 | Some x \<Rightarrow> s1\<lparr>activeWidget := Some x\<rparr>)
               in if \<not> stringifiable ty then (s2, Inl TypeError)
                  else (addLog [Lit ''Rendering UI: '', Interp ty] Thought s2,
                        Inr (result_of ''Widget rendered successfully.''))))"

definition set_reminder :: "env \<Rightarrow> FunctionCall \<Rightarrow> session \<Rightarrow> session \<times> (js_error + jsval)" where
  "set_reminder e fc s =
     (if onSetReminder e then
        (case fc_args fc of
           None \<Rightarrow> (s, Inl TypeError)
         | Some kvs \<Rightarrow>
             (s\<lparr>reminders := reminders s @ [(obj_get kvs ''message'', obj_get kvs ''delay_seconds'')]\<rparr>,
              Inr (result_of ''Reminder set.'')))
      else (s, Inr (result_of ''Reminder set.'')))"

definition change_tab :: "env \<Rightarrow> FunctionCall \<Rightarrow> session \<Rightarrow> session \<times> (js_error + jsval)" where
  "change_tab e fc s =
     (case arg fc ''tab_name'' of
        Inl err \<Rightarrow> (s, Inl err)
      | Inr (JStr t) \<Rightarrow>
          let tab = toLowerCase t;
              s1 = (if onChangeTab e then
                      (if includes_str tab ''chat'' then s\<lparr>tabChanges := tabChanges s @ [CHAT]\<rparr>
                       else if includes_str tab ''term'' then s\<lparr>tabChanges := tabChanges s @ [TERMINAL]\<rparr>
                       else if includes_str tab ''live'' then s\<lparr>tabChanges := tabChanges s @ [LIVE]\<rparr>
                       else s)
                    else s)
          in (s1, Inr (result_of (''Switched view to '' @ tab)))
      | Inr v \<Rightarrow> (s, Inl TypeError))"

definition pick_weather :: "real \<Rightarrow> jsval" where
  "pick_weather r =
     (let i = \<lfloor>r * 2\<rfloor> in
      if i = 0 then JStr ''Sunny'' else if i = 1 then JStr ''Rainy'' else JUndefined)"

definition get_weather :: "env \<Rightarrow> FunctionCall \<Rightarrow> session \<Rightarrow> session \<times> (js_error + jsval)" where
  "get_weather e fc s =
     (let w = pick_weather (random e (rng s)); s1 = s\<lparr>rng := rng s + 1\<rparr> in
      case arg fc ''location'' of
        Inl err \<Rightarrow> (s1, Inl err)
      | Inr loc \<Rightarrow>
          (s1, Inr (JObj [(''weather'', w), (''temperature'', JNum 25),
                          (''unit'', JStr ''Celsius''), (''location'', loc)])))"

definition get_stock_price :: "env \<Rightarrow> FunctionCall \<Rightarrow> session \<Rightarrow> session \<times> (js_error + jsval)" where
  "get_stock_price e fc s =
     (case arg fc ''symbol'' of
        Inl err \<Rightarrow> (s, Inl err)
      | Inr sy \<Rightarrow>
          (s\<lparr>rng := rng s + 1\<rparr>,
           Inr (JObj [(''symbol'', sy), (''price'', JStr (toFixed2 e (random e (rng s) * 1000))),
                      (''currency'', JStr ''USD'')])))"

definition search_web :: "env \<Rightarrow> FunctionCall \<Rightarrow> session \<Rightarrow> session \<times> (js_error + jsval)" where
  "search_web e fc s =
     (case arg fc ''query'' of
        Inl err \<Rightarrow> (s, Inl err)
      | Inr q \<Rightarrow>
          if \<not> stringifiable q then (s, Inl TypeError)
          else
            let s1 = s\<lparr>task := \<lparr>task_isActive = True, appName = Some (JStr ''NetSearch''),
                          actionDescription =
                            Some [Lit (''QUERYING GLOBAL NETWORK: '' @ [CHR 0x22]), Interp q,
                                  Lit [CHR 0x22]],
                          task_status = Searching, details = None\<rparr>\<rparr>
            in (case generateTextResponse e q of
                  Inl err \<Rightarrow> (s1, Inl err)
                | Inr (txt, sources) \<Rightarrow>
                    (setTimeout ResetIdle 2000 (setTimeout MarkCompleted 1000 s1),
                     Inr (JObj [(''result'', JStr txt),
                                (''metadata'', JObj [(''sources'', sources)])]))))"

definition order_food :: "env \<Rightarrow> FunctionCall \<Rightarrow> session \<Rightarrow> session \<times> (js_error + jsval)" where
  "order_food e fc s =
     (case arg fc ''item'' of
        Inl err \<Rightarrow> (s, Inl err)
      | Inr item \<Rightarrow>
          if \<not> stringifiable item then (s, Inl TypeError)
          else
            let s1 = s\<lparr>task := \<lparr>task_isActive = True, appName = Some (JStr ''FoodDelivery''),
                          actionDescription = Some [Lit ''Ordering '', Interp item, Lit ''...''],
                          task_status = Processing,
                          details = Some (JObj [(''item'', item), (''price'', JStr ''25.00'')])\<rparr>\<rparr>
            in (setTimeout AwaitPayment 2000 s1,
                Inr (result_of ''Order staged. Waiting for payment.'')))"

definition open_app :: "env \<Rightarrow> FunctionCall \<Rightarrow> session \<Rightarrow> session \<times> (js_error + jsval)" where
  "open_app e fc s =
     (case arg fc ''app_name'' of
        Inl err \<Rightarrow> (s, Inl err)
      | Inr app \<Rightarrow>
          let s1 = s\<lparr>task := \<lparr>task_isActive = True, appName = Some app,
                        actionDescription = Some [Lit ''LAUNCHING...''],
                        task_status = Opening, details = None\<rparr>\<rparr>
          in (setTimeout ResetIdle 2000 s1, Inr (result_of ''App opened.'')))"

text \<open>The body of the \<^verbatim>\<open>try\<close> block: the chain of comparisons on \<^verbatim>\<open>fc.name\<close>. When no
  comparison succeeds, \<^verbatim>\<open>result\<close> keeps its initial value \<^verbatim>\<open>{ result: "ok" }\<close>.\<close>

definition handle_call :: "env \<Rightarrow> FunctionCall \<Rightarrow> session \<Rightarrow> session \<times> (js_error + jsval)" where
  "handle_call e fc s =
     (if fc_name fc = ''render_widget'' then render_widget e fc s
      else if fc_name fc = ''set_reminder'' then set_reminder e fc s
      else if fc_name fc = ''change_tab'' then change_tab e fc s
      else if fc_name fc = ''get_weather'' then get_weather e fc s
      else if fc_name fc = ''get_stock_price'' then get_stock_price e fc s
      else if fc_name fc = ''search_web'' then search_web e fc s
      else if fc_name fc = ''order_food'' then order_food e fc s
      else if fc_name fc = ''open_app'' then open_app e fc s
      else (s, Inr (result_of ''ok'')))"

text \<open>One iteration of the loop over \<^verbatim>\<open>message.toolCall.functionCalls\<close>: log, run the
  handler under \<^verbatim>\<open>try\<close>, turn a thrown value into the error payload, send the response.\<close>

definition error_result :: jsval where
  "error_result = JObj [(''error'', JStr ''Tool execution failed'')]"

definition dispatch_call :: "env \<Rightarrow> FunctionCall \<Rightarrow> session \<Rightarrow> session" where
  "dispatch_call e fc s =
     (let s0 = addLog [Lit ''Exec: '', Lit (fc_name fc)] Tool s in
      case handle_call e fc s0 of
        (s1, Inl err) \<Rightarrow>
          s1\<lparr>consoleErrors := consoleErrors s1 @ [err],
             sent := sent s1 @ [\<lparr>resp_id = fc_id fc, resp_name = fc_name fc,
                                response = error_result\<rparr>]\<rparr>
      | (s1, Inr v) \<Rightarrow>
          s1\<lparr>sent := sent s1 @ [\<lparr>resp_id = fc_id fc, resp_name = fc_name fc, response = v\<rparr>]\<rparr>)"

fun dispatch_calls :: "env \<Rightarrow> FunctionCall list \<Rightarrow> session \<Rightarrow> session" where
  "dispatch_calls e [] s = s"
| "dispatch_calls e (fc # fcs) s = dispatch_calls e fcs (dispatch_call e fc s)"

subsection \<open>Interruption and playback scheduling\<close>

text \<open>The branch for \<^verbatim>\<open>serverContent?.interrupted\<close>. Each \<^verbatim>\<open>source.stop()\<close> sits in
  its own \<^verbatim>\<open>try\<close>, so the loop visits every source. The new watermark is
  \<^verbatim>\<open>outputContextRef.current?.currentTime || 0\<close>: the clock reading when the reference
  holds a context, and 0 when it has been released.\<close>

definition interrupt :: "real \<Rightarrow> session \<Rightarrow> session" where
  "interrupt now s =
     (let s1 = addLog [Lit ''User Interruption Detected''] Info s;
          s2 = s1\<lparr>effects := effects s1 @ map SourceStop (sourcesRef s1)\<rparr>;
          s3 = s2\<lparr>sourcesRef := []\<rparr>
      in s3\<lparr>nextStartTimeRef :=
              (case outputContextRef s3 of None \<Rightarrow> 0
               | Some ctx \<Rightarrow> if now \<noteq> 0 then now else 0)\<rparr>)"

definition is_interrupted :: "LiveServerMessage \<Rightarrow> bool" where
  "is_interrupted m = (case serverContent m of None \<Rightarrow> False | Some sc \<Rightarrow> interrupted sc)"

text \<open>\<^verbatim>\<open>message.serverContent?.modelTurn?.parts?.[0]?.inlineData?.data\<close>\<close>

definition base64Audio :: "LiveServerMessage \<Rightarrow> string option" where
  "base64Audio m =
     (case serverContent m of
        None \<Rightarrow> None
      | Some sc \<Rightarrow>
          (case modelTurn sc of
             None \<Rightarrow> None
           | Some ps \<Rightarrow> (case ps of [] \<Rightarrow> None | p # rest \<Rightarrow> inlineData p)))"

text \<open>\<^verbatim>\<open>Set.prototype.add\<close> and \<^verbatim>\<open>Set.prototype.delete\<close> on the live set, which keeps
  insertion order.\<close>

definition set_add :: "handle \<Rightarrow> handle list \<Rightarrow> handle list" where
  "set_add h hs = (if h \<in> set hs then hs else hs @ [h])"

definition set_delete :: "handle \<Rightarrow> handle list \<Rightarrow> handle list" where
  "set_delete h hs = removeAll h hs"

text \<open>The body of \<^verbatim>\<open>if (base64Audio)\<close>. The watermark is raised to the clock before the
  decoder runs; a decoder failure leaves the callback through the exception, which nothing in
  \<^verbatim>\<open>onmessage\<close> catches, and is returned here beside the state reached so far.\<close>

definition play_audio :: "env \<Rightarrow> real \<Rightarrow> string \<Rightarrow> session \<Rightarrow> session \<times> js_error option" where
  "play_audio e now b64 s =
     (let s1 = s\<lparr>nextStartTimeRef := max (nextStartTimeRef s) now\<rparr> in
      case decodeAudio e b64 of
        Inl err \<Rightarrow> (s1, Some err)
      | Inr audioBuffer \<Rightarrow>
          let source = nextHandle s1;
              s2 = s1\<lparr>nextHandle := Suc source\<rparr>;
              s3 = emit (SourceStart source (nextStartTimeRef s2) audioBuffer) s2;
              s4 = s3\<lparr>nextStartTimeRef := nextStartTimeRef s3 + duration audioBuffer\<rparr>
          in (s4\<lparr>sourcesRef := set_add source (sourcesRef s4)\<rparr>, None))"

text \<open>The listener for the \<^verbatim>\<open>ended\<close> event of a source.\<close>

definition source_ended :: "handle \<Rightarrow> session \<Rightarrow> session" where
  "source_ended source s = s\<lparr>sourcesRef := set_delete source (sourcesRef s)\<rparr>"

definition onmessage :: "env \<Rightarrow> real \<Rightarrow> LiveServerMessage \<Rightarrow> session \<Rightarrow> session \<times> js_error option" where
  "onmessage e now m s =
     (if is_interrupted m then (interrupt now s, None)
      else
        let s1 = (case toolCall m of None \<Rightarrow> s | Some fcs \<Rightarrow> dispatch_calls e fcs s) in
        case base64Audio m of
          None \<Rightarrow> (s1, None)
        | Some b64 \<Rightarrow> if b64 = [] then (s1, None) else play_audio e now b64 s1)"

subsection \<open>Resource lifecycle\<close>

definition cleanupAudio :: "session \<Rightarrow> session" where
  "cleanupAudio s =
     (let s1 = s\<lparr>effects := effects s @ map SourceStop (sourcesRef s)\<rparr>;
          s2 = s1\<lparr>sourcesRef := []\<rparr>;
          s3 = (case scriptProcessorRef s2 of None \<Rightarrow> s2
                | Some h \<Rightarrow> (emit (NodeDisconnect h) s2)\<lparr>scriptProcessorRef := None\<rparr>);
          s4 = (case sourceNodeRef s3 of None \<Rightarrow> s3
                | Some h \<Rightarrow> (emit (NodeDisconnect h) s3)\<lparr>sourceNodeRef := None\<rparr>);
          s5 = (case audioStreamRef s4 of None \<Rightarrow> s4
                | Some h \<Rightarrow> (emit (TracksStop h) s4)\<lparr>audioStreamRef := None\<rparr>);
          s6 = (case inputContextRef s5 of None \<Rightarrow> s5
                | Some h \<Rightarrow> (emit (ContextClose h) s5)\<lparr>inputContextRef := None\<rparr>);
          s7 = (case outputContextRef s6 of None \<Rightarrow> s6
                | Some h \<Rightarrow> (emit (ContextClose h) s6)\<lparr>outputContextRef := None\<rparr>);
          s8 = (case sessionPromiseRef s7 of None \<Rightarrow> s7
                | Some h \<Rightarrow> emit (SessionClose h) s7)
      in s8\<lparr>sessionPromiseRef := None\<rparr>)"

definition cleanupVideo :: "session \<Rightarrow> session" where
  "cleanupVideo s =
     (let s1 = (case frameIntervalRef s of None \<Rightarrow> s
                | Some h \<Rightarrow> (emit (IntervalClear h) s)\<lparr>frameIntervalRef := None\<rparr>)
      in (case videoStreamRef s1 of None \<Rightarrow> s1
          | Some h \<Rightarrow> (emit (TracksStop h) s1)\<lparr>videoStreamRef := None\<rparr>))"

definition stopVideo :: "session \<Rightarrow> session" where
  "stopVideo s = (cleanupVideo s)\<lparr>isCameraActive := False\<rparr>"

text \<open>\<^verbatim>\<open>startVideo\<close>, given what \<^verbatim>\<open>getUserMedia({video})\<close> answers.\<close>

definition startVideo :: "js_error + handle \<Rightarrow> session \<Rightarrow> session" where
  "startVideo answer s =
     (case answer of
        Inl err \<Rightarrow> s\<lparr>consoleErrors := consoleErrors s @ [err], isCameraActive := False\<rparr>
      | Inr stream \<Rightarrow>
          let s1 = s\<lparr>videoStreamRef := Some stream\<rparr>;
              s2 = s1\<lparr>frameIntervalRef := Some (nextHandle s1), nextHandle := Suc (nextHandle s1)\<rparr>;
              s3 = s2\<lparr>isCameraActive := True\<rparr>
          in addLog [Lit ''Visual Sensors: Online''] Info s3)"

definition stopSession :: "session \<Rightarrow> session" where
  "stopSession s =
     (let s1 = s\<lparr>isActive := False\<rparr>;
          s2 = stopVideo s1;
          s3 = cleanupAudio s2
      in s3\<lparr>status := ''SESSION TERMINATED'', volume := 0, activeWidget := None\<rparr>)"

text \<open>What \<^verbatim>\<open>startSession\<close> meets: whether \<^verbatim>\<open>process.env.API_KEY\<close> is set, the
  reading of the new output context's clock, and what \<^verbatim>\<open>getUserMedia({audio})\<close>
  answers.\<close>

record start_env =
  api_key :: bool
  currentTime :: real
  userMedia :: "js_error + handle"

text \<open>\<^verbatim>\<open>startSession\<close> with the API key present, in the two stretches that the
  \<^verbatim>\<open>await\<close> on \<^verbatim>\<open>getUserMedia\<close> separates: other callbacks can run between them.
  The second stretch ends where \<^verbatim>\<open>ai.live.connect\<close> has returned its promise. Every
  failure inside the \<^verbatim>\<open>try\<close> block lands in the one \<^verbatim>\<open>catch\<close>.\<close>

definition startSession_begin :: "real \<Rightarrow> session \<Rightarrow> session" where
  "startSession_begin ctxTime s =
     (let s1 = s\<lparr>status := ''INITIALIZING NEURAL LINK...''\<rparr>;
          s2 = addLog [Lit ''Initializing Audio Context...''] Info s1;
          s3 = s2\<lparr>isActive := True\<rparr>;
          inputCtx = nextHandle s3;
          outputCtx = Suc inputCtx
      in s3\<lparr>nextHandle := Suc outputCtx, inputContextRef := Some inputCtx,
             outputContextRef := Some outputCtx, nextStartTimeRef := ctxTime\<rparr>)"

definition startSession_resume :: "js_error + handle \<Rightarrow> session \<Rightarrow> session" where
  "startSession_resume answer s =
     (case answer of
        Inl err \<Rightarrow> cleanupAudio (s\<lparr>status := ''INITIALIZATION FAILED'', isActive := False\<rparr>)
      | Inr stream \<Rightarrow>
          let s1 = s\<lparr>audioStreamRef := Some stream\<rparr>;
              s2 = s1\<lparr>status := ''ESTABLISHING UPLINK...''\<rparr>;
              sessionPromise = nextHandle s2;
              s3 = emit (SessionConnect sessionPromise) (s2\<lparr>nextHandle := Suc sessionPromise\<rparr>)
          in s3\<lparr>sessionPromiseRef := Some sessionPromise\<rparr>)"

text \<open>\<^verbatim>\<open>startSession\<close> run without another callback in between.\<close>

definition startSession :: "start_env \<Rightarrow> session \<Rightarrow> session" where
  "startSession se s =
     (if \<not> api_key se then s\<lparr>status := ''Error: API Key missing''\<rparr>
      else startSession_resume (userMedia se) (startSession_begin (currentTime se) s))"

text \<open>The channel callbacks \<^verbatim>\<open>onopen\<close>, \<^verbatim>\<open>onclose\<close> and \<^verbatim>\<open>onerror\<close>.\<close>

definition onopen :: "session \<Rightarrow> session" where
  "onopen s =
     (let s1 = s\<lparr>status := ''NEURAL LINK ACTIVE''\<rparr>;
          s2 = addLog [Lit ''Connection Established''] Info s1;
          source = nextHandle s2;
          processor = Suc source
      in s2\<lparr>sourceNodeRef := Some source, scriptProcessorRef := Some processor,
             nextHandle := Suc processor\<rparr>)"

definition onclose :: "session \<Rightarrow> session" where
  "onclose s = s\<lparr>status := ''DISCONNECTED'', isActive := False\<rparr>"

definition onerror :: "session \<Rightarrow> session" where
  "onerror s =
     (addLog [Lit ''Protocol Failure''] Error (s\<lparr>status := ''CONNECTION ERROR''\<rparr>))\<lparr>isActive := False\<rparr>"

text \<open>A timer set by a tool handler fires: its updater is applied to the task slot.\<close>

definition timer_fired :: "nat \<Rightarrow> session \<Rightarrow> session" where
  "timer_fired i s =
     (if i < length (timers s)
      then s\<lparr>task := apply_update (snd (timers s ! i)) (task s),
             timers := take i (timers s) @ drop (Suc i) (timers s)\<rparr>
      else s)"

subsection \<open>Callbacks of the user interface\<close>

text \<open>\<^verbatim>\<open>handlePayment\<close>, the button that dismisses the widget, \<^verbatim>\<open>toggleCamera\<close> (its
  \<^verbatim>\<open>alert\<close> changes nothing), the main button, which runs
  \<^verbatim>\<open>isActive ? stopSession : startSession\<close>, and the capture tick
  \<^verbatim>\<open>onaudioprocess\<close>, which publishes the root mean square of its block of 2048 samples
  (the frame it sends over the channel is not recorded).\<close>

definition handlePayment :: "session \<Rightarrow> session" where
  "handlePayment s =
     (let s1 = s\<lparr>task := (task s)\<lparr>task_status := Completed\<rparr>\<rparr>;
          s2 = addLog [Lit ''Payment Authorization: Success''] Info s1
      in setTimeout ResetIdle 3000 s2)"

definition dismissWidget :: "session \<Rightarrow> session" where
  "dismissWidget s = s\<lparr>activeWidget := None\<rparr>"

definition toggleCamera :: "js_error + handle \<Rightarrow> session \<Rightarrow> session" where
  "toggleCamera answer s =
     (if isCameraActive s then stopVideo s
      else if isActive s then startVideo answer s
      else s)"

definition mainButton :: "start_env \<Rightarrow> session \<Rightarrow> session" where
  "mainButton se s = (if isActive s then stopSession s else startSession se s)"

definition onaudioprocess :: "real list \<Rightarrow> session \<Rightarrow> session" where
  "onaudioprocess inputData s =
     s\<lparr>volume := sqrt (sum_list (map (\<lambda>x. x * x) inputData) / real (length inputData))\<rparr>"

subsection \<open>The session as a transition system\<close>

text \<open>Every callback of the component that writes its state: those of the channel, of the
  platform (ended sources, timers, capture ticks) and of the user interface.
  \<^verbatim>\<open>startSession\<close> appears whole and in its two stretches.\<close>

datatype event =
    Message real LiveServerMessage
  | SourceEnded handle
  | ChannelOpen
  | ChannelClose
  | ChannelError
  | TimerFired nat
  | AudioProcess "real list"
  | StartVideo "js_error + handle"
  | StopVideo
  | ToggleCamera "js_error + handle"
  | HandlePayment
  | DismissWidget
  | StartSession start_env
  | StartSessionBegin real
  | StartSessionResume "js_error + handle"
  | StopSession
  | MainButton start_env

fun step :: "env \<Rightarrow> event \<Rightarrow> session \<Rightarrow> session" where
  "step e (Message now m) s = fst (onmessage e now m s)"
| "step e (SourceEnded h) s = source_ended h s"
| "step e ChannelOpen s = onopen s"
| "step e ChannelClose s = onclose s"
| "step e ChannelError s = onerror s"
| "step e (TimerFired i) s = timer_fired i s"
| "step e (AudioProcess inputData) s = onaudioprocess inputData s"
| "step e (StartVideo answer) s = startVideo answer s"
| "step e StopVideo s = stopVideo s"
| "step e (ToggleCamera answer) s = toggleCamera answer s"
| "step e HandlePayment s = handlePayment s"
| "step e DismissWidget s = dismissWidget s"
| "step e (StartSession se) s = startSession se s"
| "step e (StartSessionBegin t) s = startSession_begin t s"
| "step e (StartSessionResume answer) s = startSession_resume answer s"
| "step e StopSession s = stopSession s"
| "step e (MainButton se) s = mainButton se s"

fun run :: "env \<Rightarrow> event list \<Rightarrow> session \<Rightarrow> session" where
  "run e [] s = s"
| "run e (ev # evs) s = run e evs (step e ev s)"

definition is_interrupt :: "event \<Rightarrow> bool" where
  "is_interrupt ev = (case ev of Message now m \<Rightarrow> is_interrupted m | _ \<Rightarrow> False)"

text \<open>The events that run the first stretch of \<^verbatim>\<open>startSession\<close>, where the watermark is
  set to the clock of the new output context.\<close>

definition is_start :: "event \<Rightarrow> bool" where
  "is_start ev =
     (case ev of StartSession se \<Rightarrow> True | StartSessionBegin t \<Rightarrow> True
      | MainButton se \<Rightarrow> True | _ \<Rightarrow> False)"

text \<open>The start times handed to \<^verbatim>\<open>source.start\<close>, in program order.\<close>

fun starts :: "effect list \<Rightarrow> real list" where
  "starts [] = []"
| "starts (SourceStart h t b # xs) = t # starts xs"
| "starts (x # xs) = starts xs"

text \<open>A message that carries one audio chunk and nothing else.\<close>

definition audio_message :: "string \<Rightarrow> LiveServerMessage" where
  "audio_message b64 =
     \<lparr>serverContent = Some \<lparr>interrupted = False, modelTurn = Some [\<lparr>inlineData = Some b64\<rparr>]\<rparr>,
      toolCall = None\<rparr>"

definition interrupt_message :: LiveServerMessage where
  "interrupt_message =
     \<lparr>serverContent = Some \<lparr>interrupted = True, modelTurn = None\<rparr>, toolCall = None\<rparr>"

definition tool_message :: "FunctionCall list \<Rightarrow> LiveServerMessage" where
  "tool_message fcs = \<lparr>serverContent = None, toolCall = Some fcs\<rparr>"

text \<open>The state of a freshly mounted component.\<close>

definition initial :: session where
  "initial =
     \<lparr>isActive = False, isCameraActive = False, status = ''SYSTEM STANDBY'', volume = 0,
      task = idle_task, activeWidget = None,
      inputContextRef = None, outputContextRef = None, sessionPromiseRef = None,
      scriptProcessorRef = None, sourceNodeRef = None, audioStreamRef = None,
      nextStartTimeRef = 0, sourcesRef = [],
      videoStreamRef = None, frameIntervalRef = None,
      effects = [], logs = [], consoleErrors = [], timers = [], sent = [],
      reminders = [], tabChanges = [], rng = 0, nextHandle = 0\<rparr>"

subsection \<open>Notions used to state the properties\<close>

text \<open>The names of the tools the session declares in \<^verbatim>\<open>functionDeclarations\<close>; they are
  exactly the names the chain in \<^verbatim>\<open>onmessage\<close> compares with.\<close>

definition declared_tools :: "string list" where
  "declared_tools = [''set_reminder'', ''change_tab'', ''get_weather'', ''get_stock_price'',
     ''open_app'', ''order_food'', ''search_web'', ''render_widget'']"

text \<open>An error payload is an object with an \<^verbatim>\<open>error\<close> member, as the \<^verbatim>\<open>catch\<close>
  block builds it.\<close>

definition is_error_payload :: "jsval \<Rightarrow> bool" where
  "is_error_payload v = (case v of JObj kvs \<Rightarrow> map_of kvs ''error'' \<noteq> None | _ \<Rightarrow> False)"

text \<open>The state with the diagnostic log and the list of sent responses blanked: two states
  with the same core differ in nothing a tool handler reads or the user interface shows
  besides the log.\<close>

definition core :: "session \<Rightarrow> session" where
  "core s = s\<lparr>logs := [], sent := []\<rparr>"

text \<open>The payload sent back for a call handled in state \<open>s\<close>, and the responses of a batch.\<close>

definition reply :: "env \<Rightarrow> FunctionCall \<Rightarrow> session \<Rightarrow> jsval" where
  "reply e fc s =
     (case snd (handle_call e fc (addLog [Lit ''Exec: '', Lit (fc_name fc)] Tool s)) of
        Inl err \<Rightarrow> JObj [(''error'', JStr ''Tool execution failed'')]
      | Inr v \<Rightarrow> v)"

fun replies :: "env \<Rightarrow> FunctionCall list \<Rightarrow> session \<Rightarrow> FunctionResponse list" where
  "replies e [] s = []"
| "replies e (fc # fcs) s =
     \<lparr>resp_id = fc_id fc, resp_name = fc_name fc, response = reply e fc s\<rparr>
       # replies e fcs (dispatch_call e fc s)"

text \<open>A sample environment and a sample session for concrete instances: no reminder
  callback, a tab callback, a search service that is offline, and a decoder that rejects the
  chunk \<^verbatim>\<open>!\<close> and otherwise yields a tenth of a second of audio per character.\<close>

definition sample_env :: env where
  "sample_env =
     \<lparr>onSetReminder = False, onChangeTab = True, random = (\<lambda>i. 0), toFixed2 = (\<lambda>r. ''0.00''),
      generateTextResponse = (\<lambda>q. Inl (Rejected ''offline'')),
      decodeAudio = (\<lambda>b. if b = ''!'' then Inl (Rejected ''bad chunk'')
                           else Inr \<lparr>frames = 2400 * length b\<rparr>)\<rparr>"

definition open_session :: session where
  "open_session =
     onopen (startSession \<lparr>api_key = True, currentTime = 0, userMedia = Inr 100\<rparr> initial)"

text \<open>A run of audio chunks: each arrives in a message of its own, at a clock reading.\<close>

definition audio_events :: "(real \<times> string) list \<Rightarrow> event list" where
  "audio_events cs = map (\<lambda>(t, b). Message t (audio_message b)) cs"

definition decodable :: "env \<Rightarrow> string \<Rightarrow> bool" where
  "decodable e b = (b \<noteq> [] \<and> (case decodeAudio e b of Inl err \<Rightarrow> False | Inr buf \<Rightarrow> True))"

definition chunk_duration :: "env \<Rightarrow> string \<Rightarrow> real" where
  "chunk_duration e b = (case decodeAudio e b of Inl err \<Rightarrow> 0 | Inr buf \<Rightarrow> duration buf)"

text \<open>The start times the session hands to the platform while it handles the chunks \<open>cs\<close>
  from state \<open>s\<close>.\<close>

definition scheduled :: "env \<Rightarrow> (real \<times> string) list \<Rightarrow> session \<Rightarrow> real list" where
  "scheduled e cs s = starts (drop (length (effects s)) (effects (run e (audio_events cs) s)))"

text \<open>The schedule as the specification words it: start at the later of watermark and clock,
  then move the watermark to the end of the chunk.\<close>

fun plan :: "env \<Rightarrow> real \<Rightarrow> (real \<times> string) list \<Rightarrow> real list" where
  "plan e w [] = []"
| "plan e w ((t, b) # cs) = max w t # plan e (max w t + chunk_duration e b) cs"

text \<open>The session in which \<^verbatim>\<open>stopSession\<close> ran while \<^verbatim>\<open>startSession\<close> was waiting for
  the microphone: the resumed \<^verbatim>\<open>startSession\<close> connects although the audio contexts have
  been released.\<close>

definition stopped_while_starting :: session where
  "stopped_while_starting =
     startSession_resume (Inr 100) (stopSession (startSession_begin 0 initial))"

text \<open>The part of the state that playback and interruption work on.\<close>

definition playback :: "session \<Rightarrow> real \<times> handle list \<times> effect list \<times> handle \<times> handle option" where
  "playback s = (nextStartTimeRef s, sourcesRef s, effects s, nextHandle s, outputContextRef s)"

text \<open>The session holds no reference any more: the live set and the nine reference cells
  for nodes, streams, contexts, the channel and the frame interval are empty. This says
  nothing about the pending one-shot timers, nor about a resource whose reference was
  overwritten before it was released.\<close>

definition references_cleared :: "session \<Rightarrow> bool" where
  "references_cleared s \<longleftrightarrow>
     sourcesRef s = [] \<and> scriptProcessorRef s = None \<and> sourceNodeRef s = None \<and>
     audioStreamRef s = None \<and> inputContextRef s = None \<and> outputContextRef s = None \<and>
     sessionPromiseRef s = None \<and> frameIntervalRef s = None \<and> videoStreamRef s = None"

text \<open>The sample session while half a second of audio is playing, and the same session with
  the camera on.\<close>

definition playing_session :: session where
  "playing_session = step sample_env (Message 0 (audio_message ''AAAAA'')) open_session"

definition busy_session :: session where
  "busy_session = step sample_env (StartVideo (Inr 200)) playing_session"

text \<open>The platform calls by which \<^verbatim>\<open>stopSession\<close> releases what the state \<open>s\<close>
  references, in program order.\<close>

definition release_calls :: "session \<Rightarrow> effect list" where
  "release_calls s =
     (case frameIntervalRef s of None \<Rightarrow> [] | Some h \<Rightarrow> [IntervalClear h])
       @ (case videoStreamRef s of None \<Rightarrow> [] | Some h \<Rightarrow> [TracksStop h])
       @ map SourceStop (sourcesRef s)
       @ (case scriptProcessorRef s of None \<Rightarrow> [] | Some h \<Rightarrow> [NodeDisconnect h])
       @ (case sourceNodeRef s of None \<Rightarrow> [] | Some h \<Rightarrow> [NodeDisconnect h])
       @ (case audioStreamRef s of None \<Rightarrow> [] | Some h \<Rightarrow> [TracksStop h])
       @ (case inputContextRef s of None \<Rightarrow> [] | Some h \<Rightarrow> [ContextClose h])
       @ (case outputContextRef s of None \<Rightarrow> [] | Some h \<Rightarrow> [ContextClose h])
       @ (case sessionPromiseRef s of None \<Rightarrow> [] | Some h \<Rightarrow> [SessionClose h])"

text \<open>Sample sessions for the lifecycle: one in which an \<^verbatim>\<open>order_food\<close> call has set its
  two-second timer, and one restarted with the main button after the channel closed.\<close>

definition ordering_session :: session where
  "ordering_session =
     step sample_env (Message 0 (tool_message
        [\<lparr>fc_id = ''o'', fc_name = ''order_food'', fc_args = Some [(''item'', JStr ''ramen'')]\<rparr>]))
       open_session"

definition restarted_session :: session where
  "restarted_session =
     step sample_env (MainButton \<lparr>api_key = True, currentTime = 0, userMedia = Inr 101\<rparr>)
       (step sample_env ChannelClose playing_session)"

section \<open>Properties of the tool dispatcher\<close>

subsection \<open>Handlers neither read the log nor touch the responses\<close>

lemma core_eq_iff: "core s = core t \<longleftrightarrow> t = s\<lparr>logs := logs t, sent := sent t\<rparr>"
  by (cases s; cases t) (auto simp: core_def)

lemma core_addLog: "core (addLog m ty s) = core s"
  by (simp add: core_def addLog_def)

lemma core_sent_upd: "core (s\<lparr>sent := x\<rparr>) = core s"
  by (simp add: core_def)

lemma render_widget_core:
  "core (fst (render_widget e fc (s\<lparr>logs := l, sent := x\<rparr>))) = core (fst (render_widget e fc s)) \<and>
     snd (render_widget e fc (s\<lparr>logs := l, sent := x\<rparr>)) = snd (render_widget e fc s) \<and>
     sent (fst (render_widget e fc s)) = sent s"
  by (simp add: core_def render_widget_def addLog_def Let_def
      split: option.splits sum.splits prod.splits)

lemma set_reminder_core:
  "core (fst (set_reminder e fc (s\<lparr>logs := l, sent := x\<rparr>))) = core (fst (set_reminder e fc s)) \<and>
     snd (set_reminder e fc (s\<lparr>logs := l, sent := x\<rparr>)) = snd (set_reminder e fc s) \<and>
     sent (fst (set_reminder e fc s)) = sent s"
  by (simp add: core_def set_reminder_def split: option.splits)

lemma change_tab_core:
  "core (fst (change_tab e fc (s\<lparr>logs := l, sent := x\<rparr>))) = core (fst (change_tab e fc s)) \<and>
     snd (change_tab e fc (s\<lparr>logs := l, sent := x\<rparr>)) = snd (change_tab e fc s) \<and>
     sent (fst (change_tab e fc s)) = sent s"
  by (simp add: core_def change_tab_def arg_def Let_def split: sum.splits jsval.splits option.splits)

lemma get_weather_core:
  "core (fst (get_weather e fc (s\<lparr>logs := l, sent := x\<rparr>))) = core (fst (get_weather e fc s)) \<and>
     snd (get_weather e fc (s\<lparr>logs := l, sent := x\<rparr>)) = snd (get_weather e fc s) \<and>
     sent (fst (get_weather e fc s)) = sent s"
  by (simp add: core_def get_weather_def Let_def split: sum.splits)

lemma get_stock_price_core:
  "core (fst (get_stock_price e fc (s\<lparr>logs := l, sent := x\<rparr>))) = core (fst (get_stock_price e fc s)) \<and>
     snd (get_stock_price e fc (s\<lparr>logs := l, sent := x\<rparr>)) = snd (get_stock_price e fc s) \<and>
     sent (fst (get_stock_price e fc s)) = sent s"
  by (simp add: core_def get_stock_price_def Let_def split: sum.splits)

lemma search_web_core:
  "core (fst (search_web e fc (s\<lparr>logs := l, sent := x\<rparr>))) = core (fst (search_web e fc s)) \<and>
     snd (search_web e fc (s\<lparr>logs := l, sent := x\<rparr>)) = snd (search_web e fc s) \<and>
     sent (fst (search_web e fc s)) = sent s"
  by (simp add: core_def search_web_def setTimeout_def Let_def split: sum.splits prod.splits)

lemma order_food_core:
  "core (fst (order_food e fc (s\<lparr>logs := l, sent := x\<rparr>))) = core (fst (order_food e fc s)) \<and>
     snd (order_food e fc (s\<lparr>logs := l, sent := x\<rparr>)) = snd (order_food e fc s) \<and>
     sent (fst (order_food e fc s)) = sent s"
  by (simp add: core_def order_food_def setTimeout_def Let_def split: sum.splits)

lemma open_app_core:
  "core (fst (open_app e fc (s\<lparr>logs := l, sent := x\<rparr>))) = core (fst (open_app e fc s)) \<and>
     snd (open_app e fc (s\<lparr>logs := l, sent := x\<rparr>)) = snd (open_app e fc s) \<and>
     sent (fst (open_app e fc s)) = sent s"
  by (simp add: core_def open_app_def setTimeout_def Let_def split: sum.splits)

lemma handle_call_upd:
  "core (fst (handle_call e fc (s\<lparr>logs := l, sent := x\<rparr>))) = core (fst (handle_call e fc s)) \<and>
     snd (handle_call e fc (s\<lparr>logs := l, sent := x\<rparr>)) = snd (handle_call e fc s) \<and>
     sent (fst (handle_call e fc s)) = sent s"
  unfolding handle_call_def
  using render_widget_core [where e=e and fc=fc and s=s and l=l and x=x]
    set_reminder_core [where e=e and fc=fc and s=s and l=l and x=x]
    change_tab_core [where e=e and fc=fc and s=s and l=l and x=x]
    get_weather_core [where e=e and fc=fc and s=s and l=l and x=x]
    get_stock_price_core [where e=e and fc=fc and s=s and l=l and x=x]
    search_web_core [where e=e and fc=fc and s=s and l=l and x=x]
    order_food_core [where e=e and fc=fc and s=s and l=l and x=x]
    open_app_core [where e=e and fc=fc and s=s and l=l and x=x]
  by (simp add: core_def)

lemma handle_call_core:
  assumes "core s = core t"
  shows "core (fst (handle_call e fc s)) = core (fst (handle_call e fc t))"
    and "snd (handle_call e fc s) = snd (handle_call e fc t)"
proof -
  from assms have t: "t = s\<lparr>logs := logs t, sent := sent t\<rparr>"
    by (simp add: core_eq_iff)
  show "core (fst (handle_call e fc s)) = core (fst (handle_call e fc t))"
    using handle_call_upd [where e=e and fc=fc and s=s and l="logs t" and x="sent t"] t by simp
  show "snd (handle_call e fc s) = snd (handle_call e fc t)"
    using handle_call_upd [where e=e and fc=fc and s=s and l="logs t" and x="sent t"] t by simp
qed

lemma handle_call_sent: "sent (fst (handle_call e fc s)) = sent s"
  using handle_call_upd [where e=e and fc=fc and s=s and l="logs s" and x="sent s"] by simp

subsection \<open>One call, one response\<close>

lemma dispatch_call_sent:
  "sent (dispatch_call e fc s) =
     sent s @ [\<lparr>resp_id = fc_id fc, resp_name = fc_name fc, response = reply e fc s\<rparr>]"
proof -
  let ?s0 = "addLog [Lit ''Exec: '', Lit (fc_name fc)] Tool s"
  obtain s1 r where h: "handle_call e fc ?s0 = (s1, r)"
    by (cases "handle_call e fc ?s0")
  have "sent s1 = sent ?s0"
    using handle_call_sent [of e fc ?s0] h by simp
  then have s1: "sent s1 = sent s"
    by (simp add: addLog_def)
  show ?thesis
    using h s1 by (cases r) (simp_all add: dispatch_call_def reply_def error_result_def Let_def)
qed

lemma dispatch_call_core:
  assumes "core s = core t"
  shows "core (dispatch_call e fc s) = core (dispatch_call e fc t)"
    and "reply e fc s = reply e fc t"
proof -
  let ?s0 = "addLog [Lit ''Exec: '', Lit (fc_name fc)] Tool s"
  let ?t0 = "addLog [Lit ''Exec: '', Lit (fc_name fc)] Tool t"
  have c0: "core ?s0 = core ?t0"
    using assms by (simp add: core_addLog)
  obtain s1 r where hs: "handle_call e fc ?s0 = (s1, r)"
    by (cases "handle_call e fc ?s0")
  obtain t1 r' where ht: "handle_call e fc ?t0 = (t1, r')"
    by (cases "handle_call e fc ?t0")
  have c1: "core s1 = core t1" and rr: "r = r'"
    using handle_call_core [OF c0, of e fc] hs ht by simp_all
  show "reply e fc s = reply e fc t"
    using hs ht rr by (simp add: reply_def)
  have ce: "core (s1\<lparr>consoleErrors := consoleErrors s1 @ [a]\<rparr>)
          = core (t1\<lparr>consoleErrors := consoleErrors t1 @ [a]\<rparr>)" for a
    using c1 by (cases s1; cases t1) (simp add: core_def)
  show "core (dispatch_call e fc s) = core (dispatch_call e fc t)"
  proof (cases r)
    case (Inl a)
    have "core (dispatch_call e fc s) = core (s1\<lparr>consoleErrors := consoleErrors s1 @ [a]\<rparr>)"
      using hs Inl by (simp add: dispatch_call_def Let_def core_def)
    moreover have "core (dispatch_call e fc t) = core (t1\<lparr>consoleErrors := consoleErrors t1 @ [a]\<rparr>)"
      using ht Inl rr by (simp add: dispatch_call_def Let_def core_def)
    ultimately show ?thesis using ce by simp
  next
    case (Inr v)
    have "core (dispatch_call e fc s) = core s1"
      using hs Inr by (simp add: dispatch_call_def Let_def core_def)
    moreover have "core (dispatch_call e fc t) = core t1"
      using ht Inr rr by (simp add: dispatch_call_def Let_def core_def)
    ultimately show ?thesis using c1 by simp
  qed
qed

subsection \<open>A batch of calls\<close>

lemma dispatch_calls_sent: "sent (dispatch_calls e fcs s) = sent s @ replies e fcs s"
  by (induction fcs arbitrary: s) (simp_all add: dispatch_call_sent)

lemma replies_ids:
  "map resp_id (replies e fcs s) = map fc_id fcs \<and>
   map resp_name (replies e fcs s) = map fc_name fcs"
  by (induction fcs arbitrary: s) simp_all

lemma length_replies: "length (replies e fcs s) = length fcs"
  by (induction fcs arbitrary: s) simp_all

lemma dispatch_calls_append:
  "dispatch_calls e (xs @ ys) s = dispatch_calls e ys (dispatch_calls e xs s)"
  by (induction xs arbitrary: s) simp_all

lemma replies_nth:
  "i < length fcs \<Longrightarrow>
   response (replies e fcs s ! i) = reply e (fcs ! i) (dispatch_calls e (take i fcs) s)"
proof (induction fcs arbitrary: s i)
  case Nil
  then show ?case by simp
next
  case (Cons fc fcs)
  show ?case
  proof (cases i)
    case 0
    then show ?thesis by simp
  next
    case (Suc j)
    with Cons.prems have "j < length fcs" by simp
    from Cons.IH [OF this] Suc show ?thesis by simp
  qed
qed

lemma dispatch_calls_core:
  "core s = core t \<Longrightarrow>
   core (dispatch_calls e fcs s) = core (dispatch_calls e fcs t) \<and>
   replies e fcs s = replies e fcs t"
proof (induction fcs arbitrary: s t)
  case Nil
  then show ?case by simp
next
  case (Cons fc fcs)
  from dispatch_call_core [OF Cons.prems, of e fc]
  have c: "core (dispatch_call e fc s) = core (dispatch_call e fc t)"
    and r: "reply e fc s = reply e fc t" by simp_all
  from Cons.IH [OF c] r show ?case by simp
qed

lemma unknown_handle_call:
  "fc_name fc \<notin> set declared_tools \<Longrightarrow>
   handle_call e fc s = (s, Inr (JObj [(''result'', JStr ''ok'')]))"
  by (simp add: declared_tools_def handle_call_def result_of_def)

lemma unknown_dispatch_call:
  assumes "fc_name fc \<notin> set declared_tools"
  shows "dispatch_call e fc s =
     (addLog [Lit ''Exec: '', Lit (fc_name fc)] Tool s)
       \<lparr>sent := sent s @ [\<lparr>resp_id = fc_id fc, resp_name = fc_name fc,
                            response = JObj [(''result'', JStr ''ok'')]\<rparr>]\<rparr>"
  using unknown_handle_call [OF assms]
  by (simp add: dispatch_call_def Let_def addLog_def)

lemma play_audio_sent: "sent (fst (play_audio e now b s)) = sent s"
  by (simp add: play_audio_def emit_def Let_def split: sum.splits)

lemma onmessage_tool_sent:
  "\<not> is_interrupted m \<Longrightarrow> toolCall m = Some fcs \<Longrightarrow>
   sent (fst (onmessage e now m s)) = sent (dispatch_calls e fcs s)"
  by (simp add: onmessage_def play_audio_sent Let_def split: option.splits)

lemma onmessage_tool_message:
  "fst (onmessage e now (tool_message fcs) s) = dispatch_calls e fcs s"
  by (simp add: onmessage_def tool_message_def is_interrupted_def base64Audio_def)

section \<open>Properties of playback and interruption\<close>

lemma play_audio_ok:
  "decodeAudio e b = Inr buf \<Longrightarrow>
   play_audio e now b s =
     (s\<lparr>nextStartTimeRef := max (nextStartTimeRef s) now + duration buf,
        nextHandle := Suc (nextHandle s),
        effects := effects s @ [SourceStart (nextHandle s) (max (nextStartTimeRef s) now) buf],
        sourcesRef := set_add (nextHandle s) (sourcesRef s)\<rparr>, None)"
  by (simp add: play_audio_def emit_def Let_def)

lemma play_audio_fail:
  "decodeAudio e b = Inl err \<Longrightarrow>
   play_audio e now b s = (s\<lparr>nextStartTimeRef := max (nextStartTimeRef s) now\<rparr>, Some err)"
  by (simp add: play_audio_def)

lemma onmessage_audio_message:
  "b \<noteq> [] \<Longrightarrow> onmessage e now (audio_message b) s = play_audio e now b s"
  by (simp add: onmessage_def audio_message_def is_interrupted_def base64Audio_def)

lemma starts_append: "starts (xs @ ys) = starts xs @ starts ys"
  by (induction xs rule: starts.induct) simp_all

lemma run_audio_effects:
  "\<forall>c\<in>set cs. decodable e (snd c) \<Longrightarrow>
   \<exists>xs. effects (run e (audio_events cs) s) = effects s @ xs \<and>
        starts xs = plan e (nextStartTimeRef s) cs"
proof (induction cs arbitrary: s)
  case Nil
  then show ?case by (simp add: audio_events_def)
next
  case (Cons c cs)
  obtain t b where c: "c = (t, b)" by (cases c)
  from Cons.prems c have b: "b \<noteq> []" and "\<exists>buf. decodeAudio e b = Inr buf"
    by (auto simp: decodable_def split: sum.splits)
  then obtain buf where buf: "decodeAudio e b = Inr buf" by blast
  let ?s1 = "step e (Message t (audio_message b)) s"
  have s1: "effects ?s1 = effects s @ [SourceStart (nextHandle s) (max (nextStartTimeRef s) t) buf]"
    "nextStartTimeRef ?s1 = max (nextStartTimeRef s) t + chunk_duration e b"
    using b buf by (simp_all add: onmessage_audio_message play_audio_ok chunk_duration_def)
  from Cons.prems have "\<forall>c\<in>set cs. decodable e (snd c)" by simp
  from Cons.IH [OF this, of ?s1] obtain xs where
    xs: "effects (run e (audio_events cs) ?s1) = effects ?s1 @ xs"
        "starts xs = plan e (nextStartTimeRef ?s1) cs" by blast
  have "run e (audio_events (c # cs)) s = run e (audio_events cs) ?s1"
    by (simp add: audio_events_def c)
  with xs s1 c show ?case by simp
qed

lemma scheduled_plan:
  assumes "\<forall>c\<in>set cs. decodable e (snd c)"
  shows "scheduled e cs s = plan e (nextStartTimeRef s) cs"
proof -
  from run_audio_effects [OF assms, of s] obtain xs where
    "effects (run e (audio_events cs) s) = effects s @ xs"
    "starts xs = plan e (nextStartTimeRef s) cs" by blast
  then show ?thesis by (simp add: scheduled_def)
qed

lemma length_plan: "length (plan e w cs) = length cs"
  by (induction cs arbitrary: w) auto

lemma plan_first: "cs \<noteq> [] \<Longrightarrow> plan e w cs ! 0 = max w (fst (cs ! 0))"
  by (cases cs) auto

lemma plan_next:
  "Suc i < length cs \<Longrightarrow>
   plan e w cs ! Suc i = max (plan e w cs ! i + chunk_duration e (snd (cs ! i))) (fst (cs ! Suc i))"
proof (induction cs arbitrary: w i)
  case Nil
  then show ?case by simp
next
  case (Cons c cs)
  obtain t b where c: "c = (t, b)" by (cases c)
  show ?case
  proof (cases i)
    case 0
    with Cons.prems have "cs \<noteq> []" by auto
    with 0 c plan_first [of cs e "max w t + chunk_duration e b"] show ?thesis by simp
  next
    case (Suc j)
    with Cons.prems have "Suc j < length cs" by simp
    from Cons.IH [OF this, of "max w t + chunk_duration e b"] Suc c show ?thesis by simp
  qed
qed

lemma render_widget_playback: "playback (fst (render_widget e fc s)) = playback s"
  by (simp add: playback_def render_widget_def addLog_def Let_def
      split: option.splits sum.splits prod.splits)

lemma set_reminder_playback: "playback (fst (set_reminder e fc s)) = playback s"
  by (simp add: playback_def set_reminder_def split: option.splits)

lemma change_tab_playback: "playback (fst (change_tab e fc s)) = playback s"
  by (simp add: playback_def change_tab_def arg_def Let_def split: sum.splits jsval.splits option.splits)

lemma get_weather_playback: "playback (fst (get_weather e fc s)) = playback s"
  by (simp add: playback_def get_weather_def Let_def split: sum.splits)

lemma get_stock_price_playback: "playback (fst (get_stock_price e fc s)) = playback s"
  by (simp add: playback_def get_stock_price_def Let_def split: sum.splits)

lemma search_web_playback: "playback (fst (search_web e fc s)) = playback s"
  by (simp add: playback_def search_web_def setTimeout_def Let_def split: sum.splits prod.splits)

lemma order_food_playback: "playback (fst (order_food e fc s)) = playback s"
  by (simp add: playback_def order_food_def setTimeout_def Let_def split: sum.splits)

lemma open_app_playback: "playback (fst (open_app e fc s)) = playback s"
  by (simp add: playback_def open_app_def setTimeout_def Let_def split: sum.splits)

lemma handle_call_playback: "playback (fst (handle_call e fc s)) = playback s"
  by (simp add: handle_call_def render_widget_playback set_reminder_playback change_tab_playback
      get_weather_playback get_stock_price_playback search_web_playback order_food_playback
      open_app_playback)

lemma dispatch_call_playback: "playback (dispatch_call e fc s) = playback s"
proof -
  let ?s0 = "addLog [Lit ''Exec: '', Lit (fc_name fc)] Tool s"
  obtain s1 r where h: "handle_call e fc ?s0 = (s1, r)"
    by (cases "handle_call e fc ?s0")
  have "playback s1 = playback ?s0"
    using handle_call_playback [of e fc ?s0] h by simp
  then have "playback s1 = playback s"
    by (simp add: playback_def addLog_def)
  then show ?thesis
    using h by (cases r) (simp_all add: dispatch_call_def Let_def playback_def)
qed

lemma dispatch_calls_playback: "playback (dispatch_calls e fcs s) = playback s"
  by (induction fcs arbitrary: s) (simp_all add: dispatch_call_playback)

lemma tool_loop_playback:
  "playback (case toolCall m of None \<Rightarrow> s | Some fcs \<Rightarrow> dispatch_calls e fcs s) = playback s"
  by (simp add: dispatch_calls_playback split: option.splits)

lemma duration_nonneg: "0 \<le> duration b"
  by (simp add: duration_def)

lemma play_audio_watermark: "nextStartTimeRef s \<le> nextStartTimeRef (fst (play_audio e now b s))"
proof (cases "decodeAudio e b")
  case (Inl err)
  then show ?thesis by (simp add: play_audio_fail)
next
  case (Inr buf)
  have "nextStartTimeRef s \<le> max (nextStartTimeRef s) now" by simp
  also have "\<dots> \<le> max (nextStartTimeRef s) now + duration buf"
    using duration_nonneg [of buf] by simp
  finally show ?thesis using Inr by (simp add: play_audio_ok)
qed

lemma onmessage_watermark:
  assumes "\<not> is_interrupted m"
  shows "nextStartTimeRef s \<le> nextStartTimeRef (fst (onmessage e now m s))"
proof -
  let ?s1 = "case toolCall m of None \<Rightarrow> s | Some fcs \<Rightarrow> dispatch_calls e fcs s"
  have w: "nextStartTimeRef ?s1 = nextStartTimeRef s"
    using tool_loop_playback [where m=m and s=s and e=e] by (simp add: playback_def)
  show ?thesis
  proof (cases "base64Audio m")
    case None
    with assms w show ?thesis by (simp add: onmessage_def Let_def)
  next
    case (Some b)
    show ?thesis
    proof (cases "b = []")
      case True
      with assms w Some show ?thesis by (simp add: onmessage_def Let_def)
    next
      case False
      with assms Some have "fst (onmessage e now m s) = fst (play_audio e now b ?s1)"
        by (simp add: onmessage_def Let_def)
      with play_audio_watermark [where s="?s1" and e=e and now=now and b=b] w show ?thesis by simp
    qed
  qed
qed

lemma cleanupAudio_watermark: "nextStartTimeRef (cleanupAudio s) = nextStartTimeRef s"
  by (simp add: cleanupAudio_def emit_def Let_def split: option.splits)

lemma cleanupVideo_watermark: "nextStartTimeRef (cleanupVideo s) = nextStartTimeRef s"
  by (simp add: cleanupVideo_def emit_def Let_def split: option.splits)

lemma stopSession_watermark: "nextStartTimeRef (stopSession s) = nextStartTimeRef s"
  by (simp add: stopSession_def stopVideo_def cleanupAudio_watermark cleanupVideo_watermark Let_def)

lemma startSession_resume_watermark:
  "nextStartTimeRef (startSession_resume answer s) = nextStartTimeRef s"
  by (simp add: startSession_resume_def cleanupAudio_watermark emit_def Let_def split: sum.splits)

lemma toggleCamera_watermark: "nextStartTimeRef (toggleCamera answer s) = nextStartTimeRef s"
  by (simp add: toggleCamera_def stopVideo_def startVideo_def cleanupVideo_watermark addLog_def
      Let_def split: sum.splits)

lemma step_watermark:
  assumes "\<not> is_interrupt ev" and "\<not> is_start ev"
  shows "nextStartTimeRef s \<le> nextStartTimeRef (step e ev s)"
proof (cases ev)
  case (Message now m)
  with assms(1) have "\<not> is_interrupted m" by (simp add: is_interrupt_def)
  from onmessage_watermark [OF this] Message show ?thesis by simp
next
  case (StartSession se)
  with assms(2) show ?thesis by (simp add: is_start_def)
next
  case (StartSessionBegin t)
  with assms(2) show ?thesis by (simp add: is_start_def)
next
  case (MainButton se)
  with assms(2) show ?thesis by (simp add: is_start_def)
qed (simp_all add: source_ended_def onopen_def onclose_def onerror_def timer_fired_def
      startVideo_def stopVideo_def cleanupVideo_watermark stopSession_watermark
      startSession_resume_watermark toggleCamera_watermark handlePayment_def dismissWidget_def
      onaudioprocess_def setTimeout_def addLog_def Let_def split: sum.splits)

lemma run_watermark:
  "\<forall>ev\<in>set evs. \<not> is_interrupt ev \<and> \<not> is_start ev \<Longrightarrow>
   nextStartTimeRef s \<le> nextStartTimeRef (run e evs s)"
proof (induction evs arbitrary: s)
  case Nil
  then show ?case by simp
next
  case (Cons ev evs)
  from Cons.prems have "nextStartTimeRef s \<le> nextStartTimeRef (step e ev s)"
    by (simp add: step_watermark)
  also from Cons.prems have "\<dots> \<le> nextStartTimeRef (run e evs (step e ev s))"
    by (intro Cons.IH) simp
  finally show ?case by simp
qed

lemma interrupt_fields:
  "sourcesRef (interrupt now s) = [] \<and>
   effects (interrupt now s) = effects s @ map SourceStop (sourcesRef s) \<and>
   nextStartTimeRef (interrupt now s) = (if outputContextRef s = None then 0 else now) \<and>
   nextHandle (interrupt now s) = nextHandle s"
  by (simp add: interrupt_def addLog_def Let_def split: option.splits)

section \<open>Properties of the resource lifecycle\<close>

lemma cleanupAudio_references_cleared:
  "sourcesRef (cleanupAudio s) = [] \<and> scriptProcessorRef (cleanupAudio s) = None \<and>
   sourceNodeRef (cleanupAudio s) = None \<and> audioStreamRef (cleanupAudio s) = None \<and>
   inputContextRef (cleanupAudio s) = None \<and> outputContextRef (cleanupAudio s) = None \<and>
   sessionPromiseRef (cleanupAudio s) = None \<and>
   frameIntervalRef (cleanupAudio s) = frameIntervalRef s \<and>
   videoStreamRef (cleanupAudio s) = videoStreamRef s"
  by (simp add: cleanupAudio_def emit_def Let_def split: option.splits)

lemma cleanupAudio_effects:
  "effects (cleanupAudio s) =
     effects s @ map SourceStop (sourcesRef s)
       @ (case scriptProcessorRef s of None \<Rightarrow> [] | Some h \<Rightarrow> [NodeDisconnect h])
       @ (case sourceNodeRef s of None \<Rightarrow> [] | Some h \<Rightarrow> [NodeDisconnect h])
       @ (case audioStreamRef s of None \<Rightarrow> [] | Some h \<Rightarrow> [TracksStop h])
       @ (case inputContextRef s of None \<Rightarrow> [] | Some h \<Rightarrow> [ContextClose h])
       @ (case outputContextRef s of None \<Rightarrow> [] | Some h \<Rightarrow> [ContextClose h])
       @ (case sessionPromiseRef s of None \<Rightarrow> [] | Some h \<Rightarrow> [SessionClose h])"
  by (simp add: cleanupAudio_def emit_def Let_def split: option.splits)

lemma cleanupVideo_references_cleared:
  "frameIntervalRef (cleanupVideo s) = None \<and> videoStreamRef (cleanupVideo s) = None"
  by (simp add: cleanupVideo_def emit_def Let_def split: option.splits)

lemma cleanupVideo_effects:
  "effects (cleanupVideo s) =
     effects s @ (case frameIntervalRef s of None \<Rightarrow> [] | Some h \<Rightarrow> [IntervalClear h])
       @ (case videoStreamRef s of None \<Rightarrow> [] | Some h \<Rightarrow> [TracksStop h])"
  by (simp add: cleanupVideo_def emit_def Let_def split: option.splits)

lemma cleanupVideo_audio_refs:
  "sourcesRef (cleanupVideo s) = sourcesRef s \<and>
   scriptProcessorRef (cleanupVideo s) = scriptProcessorRef s \<and>
   sourceNodeRef (cleanupVideo s) = sourceNodeRef s \<and>
   audioStreamRef (cleanupVideo s) = audioStreamRef s \<and>
   inputContextRef (cleanupVideo s) = inputContextRef s \<and>
   outputContextRef (cleanupVideo s) = outputContextRef s \<and>
   sessionPromiseRef (cleanupVideo s) = sessionPromiseRef s"
  by (simp add: cleanupVideo_def emit_def Let_def split: option.splits)

lemma cleanupAudio_idle:
  "sourcesRef s = [] \<Longrightarrow> scriptProcessorRef s = None \<Longrightarrow> sourceNodeRef s = None \<Longrightarrow>
   audioStreamRef s = None \<Longrightarrow> inputContextRef s = None \<Longrightarrow> outputContextRef s = None \<Longrightarrow>
   sessionPromiseRef s = None \<Longrightarrow> cleanupAudio s = s"
  by (cases s) (simp add: cleanupAudio_def Let_def)

lemma cleanupVideo_idle:
  "frameIntervalRef s = None \<Longrightarrow> videoStreamRef s = None \<Longrightarrow> cleanupVideo s = s"
  by (simp add: cleanupVideo_def)

lemma stopSession_references_cleared: "references_cleared (stopSession s)"
  by (simp add: references_cleared_def stopSession_def stopVideo_def Let_def cleanupAudio_references_cleared
      cleanupVideo_references_cleared)

lemma stopSession_flags:
  "\<not> isActive (stopSession s) \<and> \<not> isCameraActive (stopSession s) \<and>
   status (stopSession s) = ''SESSION TERMINATED'' \<and> volume (stopSession s) = 0 \<and>
   activeWidget (stopSession s) = None"
  by (simp add: stopSession_def stopVideo_def Let_def cleanupAudio_def cleanupVideo_def emit_def
      split: option.splits)

lemma stopSession_idle:
  assumes "references_cleared s" and "\<not> isActive s" and "\<not> isCameraActive s"
    and "status s = ''SESSION TERMINATED''" and "volume s = 0" and "activeWidget s = None"
  shows "stopSession s = s"
  using assms
  by (cases s) (simp add: references_cleared_def stopSession_def stopVideo_def cleanupVideo_def
      cleanupAudio_def Let_def)

lemma stopSession_twice: "stopSession (stopSession s) = stopSession s"
  using stopSession_references_cleared [of s] stopSession_flags [of s]
  by (intro stopSession_idle) simp_all

lemma stopSession_effects: "effects (stopSession s) = effects s @ release_calls s"
  by (simp add: release_calls_def stopSession_def stopVideo_def Let_def cleanupAudio_effects
      cleanupVideo_effects cleanupVideo_audio_refs)

lemma stopSession_timers: "timers (stopSession s) = timers s"
  by (simp add: stopSession_def stopVideo_def cleanupAudio_def cleanupVideo_def emit_def Let_def
      split: option.splits)

lemma stopSession_task: "task (stopSession s) = task s"
  by (simp add: stopSession_def stopVideo_def cleanupAudio_def cleanupVideo_def emit_def Let_def
      split: option.splits)

lemma startSession_begin_fields:
  "inputContextRef (startSession_begin t s) = Some (nextHandle s) \<and>
   outputContextRef (startSession_begin t s) = Some (Suc (nextHandle s)) \<and>
   nextHandle (startSession_begin t s) = Suc (Suc (nextHandle s)) \<and>
   nextStartTimeRef (startSession_begin t s) = t \<and>
   effects (startSession_begin t s) = effects s \<and>
   logs (startSession_begin t s) = logs s @ [([Lit ''Initializing Audio Context...''], Info)] \<and>
   sourcesRef (startSession_begin t s) = sourcesRef s \<and>
   scriptProcessorRef (startSession_begin t s) = scriptProcessorRef s \<and>
   sourceNodeRef (startSession_begin t s) = sourceNodeRef s \<and>
   audioStreamRef (startSession_begin t s) = audioStreamRef s \<and>
   sessionPromiseRef (startSession_begin t s) = sessionPromiseRef s"
  by (simp add: startSession_begin_def addLog_def Let_def)

lemma cleanupAudio_rest:
  "isActive (cleanupAudio s) = isActive s \<and> status (cleanupAudio s) = status s \<and>
   logs (cleanupAudio s) = logs s \<and> nextHandle (cleanupAudio s) = nextHandle s"
  by (simp add: cleanupAudio_def emit_def Let_def split: option.splits)

section \<open>The sample sessions, evaluated\<close>

lemma open_session_eval:
  "open_session =
     initial\<lparr>isActive := True, status := ''NEURAL LINK ACTIVE'',
       inputContextRef := Some 0, outputContextRef := Some 1, sessionPromiseRef := Some 2,
       scriptProcessorRef := Some 4, sourceNodeRef := Some 3, audioStreamRef := Some 100,
       logs := [([Lit ''Initializing Audio Context...''], Info),
                ([Lit ''Connection Established''], Info)],
       effects := [SessionConnect 2], nextHandle := 5\<rparr>"
  by (simp add: open_session_def onopen_def startSession_def startSession_resume_def
      startSession_begin_def addLog_def emit_def initial_def Let_def)

lemma playing_session_eval:
  "playing_session =
     open_session\<lparr>nextStartTimeRef := 1 / 2, nextHandle := 6,
       effects := [SessionConnect 2, SourceStart 5 0 \<lparr>frames = 12000\<rparr>], sourcesRef := [5]\<rparr>"
  by (simp add: playing_session_def onmessage_audio_message play_audio_def emit_def set_add_def
      duration_def sample_env_def open_session_eval initial_def Let_def)

lemma busy_session_eval:
  "busy_session =
     playing_session\<lparr>videoStreamRef := Some 200, frameIntervalRef := Some 6, nextHandle := 7,
       isCameraActive := True,
       logs := logs playing_session @ [([Lit ''Visual Sensors: Online''], Info)]\<rparr>"
  by (simp add: busy_session_def startVideo_def addLog_def playing_session_eval open_session_eval
      initial_def Let_def)

lemma stopped_while_starting_eval:
  "outputContextRef stopped_while_starting = None \<and>
   sessionPromiseRef stopped_while_starting = Some 2 \<and>
   audioStreamRef stopped_while_starting = Some 100"
  by (simp add: stopped_while_starting_def startSession_resume_def startSession_begin_def
      stopSession_def stopVideo_def cleanupVideo_def cleanupAudio_def emit_def addLog_def
      initial_def Let_def)

lemma ordering_session_eval:
  "timers ordering_session = [(2000, AwaitPayment)] \<and>
   task_status (task ordering_session) = Processing"
  by (simp add: ordering_session_def onmessage_tool_message dispatch_call_def handle_call_def
      order_food_def arg_def obj_get_def setTimeout_def addLog_def result_of_def Let_def
      open_session_eval initial_def)

lemma restarted_session_eval:
  "audioStreamRef restarted_session = Some 101 \<and>
   inputContextRef restarted_session = Some 6 \<and>
   outputContextRef restarted_session = Some 7 \<and>
   sessionPromiseRef restarted_session = Some 8 \<and>
   scriptProcessorRef restarted_session = Some 4 \<and>
   sourceNodeRef restarted_session = Some 3 \<and>
   sourcesRef restarted_session = [5] \<and>
   frameIntervalRef restarted_session = None \<and>
   videoStreamRef restarted_session = None \<and>
   effects restarted_session =
     [SessionConnect 2, SourceStart 5 0 \<lparr>frames = 12000\<rparr>, SessionConnect 8]"
  by (simp add: restarted_session_def mainButton_def onclose_def startSession_def
      startSession_resume_def startSession_begin_def addLog_def emit_def Let_def
      playing_session_eval open_session_eval initial_def)

subsection \<open>The claims about the dispatcher\<close>

text \<open>
  Claim C3. Every tool call the loop dispatches produces exactly one response, carrying the
  id and the name of its call, also when the handler throws. For a message that is not an
  interruption and carries the calls \<open>fcs\<close>, the responses sent while handling it are a list
  \<open>rs\<close> appended to those sent before; \<open>rs\<close> lists the ids and the names of \<open>fcs\<close> in
  order (so every id is answered as often as it was called), and where the handler of the
  i-th call throws, the i-th response carries the error payload while the others are still
  produced.
\<close>

theorem every_dispatched_call_gets_one_result:
  assumes "\<not> is_interrupted m" and "toolCall m = Some fcs"
  shows "\<exists>rs. sent (fst (onmessage e now m s)) = sent s @ rs \<and>
     map resp_id rs = map fc_id fcs \<and> map resp_name rs = map fc_name fcs \<and>
     (\<forall>i<length fcs. \<forall>err.
        snd (handle_call e (fcs ! i)
               (addLog [Lit ''Exec: '', Lit (fc_name (fcs ! i))] Tool
                  (dispatch_calls e (take i fcs) s))) = Inl err
        \<longrightarrow> response (rs ! i) = JObj [(''error'', JStr ''Tool execution failed'')])"
proof -
  let ?rs = "replies e fcs s"
  have a: "sent (fst (onmessage e now m s)) = sent s @ ?rs"
    using onmessage_tool_sent [OF assms] by (simp add: dispatch_calls_sent)
  have b: "map resp_id ?rs = map fc_id fcs" and c: "map resp_name ?rs = map fc_name fcs"
    using replies_ids [of e fcs s] by simp_all
  have d: "response (?rs ! i) = JObj [(''error'', JStr ''Tool execution failed'')]"
    if "i < length fcs"
      and "snd (handle_call e (fcs ! i)
               (addLog [Lit ''Exec: '', Lit (fc_name (fcs ! i))] Tool
                  (dispatch_calls e (take i fcs) s))) = Inl err" for i err
    using replies_nth [OF that(1), of e s] that(2) by (simp add: reply_def)
  from a b c d show ?thesis by blast
qed

text \<open>An instance: a \<^verbatim>\<open>change_tab\<close> call without arguments, whose handler throws a
  \<^verbatim>\<open>TypeError\<close>, followed by an \<^verbatim>\<open>open_app\<close> call.\<close>

theorem every_dispatched_call_gets_one_result_witness:
  "\<not> is_interrupted
       (tool_message [\<lparr>fc_id = ''a'', fc_name = ''change_tab'', fc_args = None\<rparr>,
                      \<lparr>fc_id = ''b'', fc_name = ''open_app'',
                        fc_args = Some [(''app_name'', JStr ''Maps'')]\<rparr>]) \<and>
   snd (handle_call sample_env \<lparr>fc_id = ''a'', fc_name = ''change_tab'', fc_args = None\<rparr>
          (addLog [Lit ''Exec: '', Lit ''change_tab''] Tool open_session)) = Inl TypeError \<and>
   (\<exists>rs. sent (fst (onmessage sample_env 0
             (tool_message [\<lparr>fc_id = ''a'', fc_name = ''change_tab'', fc_args = None\<rparr>,
                            \<lparr>fc_id = ''b'', fc_name = ''open_app'',
                              fc_args = Some [(''app_name'', JStr ''Maps'')]\<rparr>])
             open_session)) = sent open_session @ rs \<and>
         map resp_id rs = [''a'', ''b''] \<and>
         response (rs ! 0) = JObj [(''error'', JStr ''Tool execution failed'')])"
proof -
  let ?a = "\<lparr>fc_id = ''a'', fc_name = ''change_tab'', fc_args = None\<rparr>"
  let ?b = "\<lparr>fc_id = ''b'', fc_name = ''open_app'', fc_args = Some [(''app_name'', JStr ''Maps'')]\<rparr>"
  have 1: "\<not> is_interrupted (tool_message [?a, ?b])"
    by (simp add: is_interrupted_def tool_message_def)
  have 2: "toolCall (tool_message [?a, ?b]) = Some [?a, ?b]"
    by (simp add: tool_message_def)
  have 3: "snd (handle_call sample_env ?a
             (addLog [Lit ''Exec: '', Lit ''change_tab''] Tool open_session)) = Inl TypeError"
    by (simp add: handle_call_def change_tab_def arg_def)
  from every_dispatched_call_gets_one_result [OF 1 2, of sample_env 0 open_session]
  obtain rs where rs: "sent (fst (onmessage sample_env 0 (tool_message [?a, ?b]) open_session))
        = sent open_session @ rs"
      "map resp_id rs = map fc_id [?a, ?b]"
      "\<forall>i<length [?a, ?b]. \<forall>err.
        snd (handle_call sample_env ([?a, ?b] ! i)
               (addLog [Lit ''Exec: '', Lit (fc_name ([?a, ?b] ! i))] Tool
                  (dispatch_calls sample_env (take i [?a, ?b]) open_session))) = Inl err
        \<longrightarrow> response (rs ! i) = JObj [(''error'', JStr ''Tool execution failed'')]"
    by blast
  from rs(3) [rule_format, of 0 TypeError] 3
  have "response (rs ! 0) = JObj [(''error'', JStr ''Tool execution failed'')]"
    by simp
  with 1 3 rs(1) rs(2) show ?thesis by auto
qed

text \<open>
  Claim C4, as stated: a call whose name is not a declared tool, such as \<^verbatim>\<open>foo_bar\<close>, is
  answered with an error payload. It fails: no comparison in the chain succeeds, the
  \<^verbatim>\<open>try\<close> block completes, and the initial value \<^verbatim>\<open>{ result: "ok" }\<close> is sent.
\<close>

theorem unknown_tool_error_payload_counterexample:
  "response (last (sent (fst (onmessage sample_env 0
      (tool_message [\<lparr>fc_id = ''c1'', fc_name = ''foo_bar'', fc_args = Some []\<rparr>])
      open_session)))) = JObj [(''result'', JStr ''ok'')] \<and>
   \<not> is_error_payload (response (last (sent (fst (onmessage sample_env 0
      (tool_message [\<lparr>fc_id = ''c1'', fc_name = ''foo_bar'', fc_args = Some []\<rparr>])
      open_session)))))"
  by (simp add: onmessage_tool_message dispatch_call_sent reply_def handle_call_def
      result_of_def is_error_payload_def)

text \<open>
  Claim C4, amended. A call whose name is not a declared tool is answered with one response
  carrying its id, its name and the default payload \<^verbatim>\<open>{ result: "ok" }\<close>, and the other
  calls of the batch are handled as if it were absent: with the unknown call between the
  calls \<open>pre\<close> and \<open>post\<close>, the responses are those of the batch without it, with the
  default response inserted at its position, and the final states agree on everything but
  the log and the responses.
\<close>

theorem unknown_tool_default_ok:
  assumes "fc_name fc \<notin> set declared_tools"
  shows "\<exists>rs1 rs2. length rs1 = length pre \<and> length rs2 = length post \<and>
     sent (dispatch_calls e (pre @ post) s) = sent s @ rs1 @ rs2 \<and>
     sent (dispatch_calls e (pre @ fc # post) s) =
       sent s @ rs1 @ [\<lparr>resp_id = fc_id fc, resp_name = fc_name fc,
                         response = JObj [(''result'', JStr ''ok'')]\<rparr>] @ rs2 \<and>
     core (dispatch_calls e (pre @ fc # post) s) = core (dispatch_calls e (pre @ post) s)"
proof -
  let ?p = "dispatch_calls e pre s"
  let ?q = "dispatch_call e fc ?p"
  let ?ok = "\<lparr>resp_id = fc_id fc, resp_name = fc_name fc,
               response = JObj [(''result'', JStr ''ok'')]\<rparr>"
  have q: "?q = (addLog [Lit ''Exec: '', Lit (fc_name fc)] Tool ?p)\<lparr>sent := sent ?p @ [?ok]\<rparr>"
    by (rule unknown_dispatch_call [OF assms])
  have cq: "core ?q = core ?p"
    by (subst q) (simp add: core_sent_upd core_addLog)
  have sq: "sent ?q = sent ?p @ [?ok]"
    by (subst q) simp
  from dispatch_calls_core [OF cq, of e post]
  have c: "core (dispatch_calls e post ?q) = core (dispatch_calls e post ?p)"
    and r: "replies e post ?q = replies e post ?p" by simp_all
  have 1: "sent (dispatch_calls e (pre @ post) s) = sent s @ replies e pre s @ replies e post ?p"
    by (simp add: dispatch_calls_append dispatch_calls_sent)
  have 2: "sent (dispatch_calls e (pre @ fc # post) s)
         = sent s @ replies e pre s @ [?ok] @ replies e post ?p"
    using sq r by (simp add: dispatch_calls_append dispatch_calls_sent)
  have 3: "core (dispatch_calls e (pre @ fc # post) s) = core (dispatch_calls e (pre @ post) s)"
    using c by (simp add: dispatch_calls_append)
  from 1 2 3 length_replies [of e pre s] length_replies [of e post ?p]
  show ?thesis by blast
qed

text \<open>An instance: \<^verbatim>\<open>foo_bar\<close> between an \<^verbatim>\<open>open_app\<close> and a \<^verbatim>\<open>get_weather\<close> call.\<close>

theorem unknown_tool_default_ok_witness:
  "''foo_bar'' \<notin> set declared_tools \<and>
   (\<exists>rs1 rs2. length rs1 = 1 \<and> length rs2 = 1 \<and>
     sent (dispatch_calls sample_env
        [\<lparr>fc_id = ''1'', fc_name = ''open_app'', fc_args = Some [(''app_name'', JStr ''Maps'')]\<rparr>,
         \<lparr>fc_id = ''2'', fc_name = ''foo_bar'', fc_args = Some []\<rparr>,
         \<lparr>fc_id = ''3'', fc_name = ''get_weather'', fc_args = Some [(''location'', JStr ''Oslo'')]\<rparr>]
        open_session) =
       sent open_session @ rs1 @ [\<lparr>resp_id = ''2'', resp_name = ''foo_bar'',
                         response = JObj [(''result'', JStr ''ok'')]\<rparr>] @ rs2)"
proof -
  let ?u = "\<lparr>fc_id = ''2'', fc_name = ''foo_bar'', fc_args = Some []\<rparr>"
  let ?pre = "[\<lparr>fc_id = ''1'', fc_name = ''open_app'', fc_args = Some [(''app_name'', JStr ''Maps'')]\<rparr>]"
  let ?post = "[\<lparr>fc_id = ''3'', fc_name = ''get_weather'', fc_args = Some [(''location'', JStr ''Oslo'')]\<rparr>]"
  have 1: "fc_name ?u \<notin> set declared_tools"
    by (simp add: declared_tools_def)
  from unknown_tool_default_ok [OF 1, of ?pre ?post sample_env open_session]
  obtain rs1 rs2 where "length rs1 = 1" "length rs2 = 1"
    "sent (dispatch_calls sample_env (?pre @ ?u # ?post) open_session) =
       sent open_session @ rs1 @ [\<lparr>resp_id = ''2'', resp_name = ''foo_bar'',
                         response = JObj [(''result'', JStr ''ok'')]\<rparr>] @ rs2"
    by auto
  with 1 show ?thesis by auto
qed

text \<open>
  Claim C9. The \<^verbatim>\<open>render_widget\<close> call with \<^verbatim>\<open>widget_type\<close> \<^verbatim>\<open>weather_card\<close> and the
  data \<^verbatim>\<open>{location: "Tokyo", temp: 22, condition: "Clear"}\<close> sets the widget slot to the
  weather variant with exactly these data and is answered with the success payload, whatever
  the state, the environment and the call's id.
\<close>

theorem render_widget_weather_tokyo:
  "activeWidget (fst (onmessage e now
      (tool_message [\<lparr>fc_id = i, fc_name = ''render_widget'',
         fc_args = Some [(''widget_type'', JStr ''weather_card''),
                         (''data'', JObj [(''location'', JStr ''Tokyo''), (''temp'', JNum 22),
                                          (''condition'', JStr ''Clear'')])]\<rparr>]) s))
     = Some (Weather (JStr ''Tokyo'') (JNum 22) (JStr ''Clear'')) \<and>
   sent (fst (onmessage e now
      (tool_message [\<lparr>fc_id = i, fc_name = ''render_widget'',
         fc_args = Some [(''widget_type'', JStr ''weather_card''),
                         (''data'', JObj [(''location'', JStr ''Tokyo''), (''temp'', JNum 22),
                                          (''condition'', JStr ''Clear'')])]\<rparr>]) s))
     = sent s @ [\<lparr>resp_id = i, resp_name = ''render_widget'',
                  response = JObj [(''result'', JStr ''Widget rendered successfully.'')]\<rparr>]"
  by (simp add: onmessage_tool_message dispatch_call_def handle_call_def render_widget_def
      widget_of_def obj_get_def bind_err_def js_or_def addLog_def result_of_def Let_def)

text \<open>The instance in the sample session.\<close>

theorem render_widget_weather_tokyo_witness:
  "activeWidget (fst (onmessage sample_env 0
      (tool_message [\<lparr>fc_id = ''w1'', fc_name = ''render_widget'',
         fc_args = Some [(''widget_type'', JStr ''weather_card''),
                         (''data'', JObj [(''location'', JStr ''Tokyo''), (''temp'', JNum 22),
                                          (''condition'', JStr ''Clear'')])]\<rparr>]) open_session))
     = Some (Weather (JStr ''Tokyo'') (JNum 22) (JStr ''Clear''))"
  using render_widget_weather_tokyo [of sample_env 0 "''w1''" open_session] by simp

text \<open>
  Claim C10, as stated: every \<^verbatim>\<open>render_widget\<close> call whose \<^verbatim>\<open>widget_type\<close> is not one of
  the four supported discriminators is answered with the success payload. It fails when the
  handler throws before it reaches the assignment of that payload: for a \<^verbatim>\<open>widget_type\<close>
  that cannot be converted to a string for the log line \<^verbatim>\<open>Rendering UI: ${type}\<close>, such
  as the object \<^verbatim>\<open>{toString: 1}\<close>, and for a call that has no arguments object to read
  the discriminator from. Both are answered with the error payload.
\<close>

theorem render_widget_unsupported_type_counterexample:
  "obj_get [(''widget_type'', JObj [(''toString'', JNum 1)]), (''data'', JObj [])] ''widget_type''
     \<notin> {JStr ''weather_card'', JStr ''stock_chart'', JStr ''map_view'', JStr ''note_pad''} \<and>
   sent (fst (onmessage sample_env 0
       (tool_message [\<lparr>fc_id = ''x'', fc_name = ''render_widget'',
          fc_args = Some [(''widget_type'', JObj [(''toString'', JNum 1)]), (''data'', JObj [])]\<rparr>])
       open_session))
     = sent open_session
        @ [\<lparr>resp_id = ''x'', resp_name = ''render_widget'',
             response = JObj [(''error'', JStr ''Tool execution failed'')]\<rparr>] \<and>
   sent (fst (onmessage sample_env 0
       (tool_message [\<lparr>fc_id = ''y'', fc_name = ''render_widget'', fc_args = None\<rparr>])
       open_session))
     = sent open_session
        @ [\<lparr>resp_id = ''y'', resp_name = ''render_widget'',
             response = JObj [(''error'', JStr ''Tool execution failed'')]\<rparr>]"
  by (simp add: onmessage_tool_message dispatch_call_def handle_call_def render_widget_def
      widget_of_def obj_get_def addLog_def error_result_def Let_def)

text \<open>
  Claim C10, amended. A \<^verbatim>\<open>render_widget\<close> call whose \<^verbatim>\<open>widget_type\<close> is not one of the
  four supported discriminators (an absent one included, and also a call without an arguments
  object) leaves the widget slot as it was. It is answered with the success payload
  \<^verbatim>\<open>Widget rendered successfully.\<close> when the call has an arguments object and the
  \<^verbatim>\<open>widget_type\<close> converts to a string, and with the error payload
  \<^verbatim>\<open>Tool execution failed\<close> otherwise.
\<close>

theorem render_widget_unsupported_type:
  assumes "fc_name fc = ''render_widget''"
    and "case fc_args fc of None \<Rightarrow> True
         | Some kvs \<Rightarrow> obj_get kvs ''widget_type'' \<notin>
             {JStr ''weather_card'', JStr ''stock_chart'', JStr ''map_view'', JStr ''note_pad''}"
  shows "activeWidget (fst (onmessage e now (tool_message [fc]) s)) = activeWidget s \<and>
         sent (fst (onmessage e now (tool_message [fc]) s)) =
           sent s @ [\<lparr>resp_id = fc_id fc, resp_name = ''render_widget'',
                        response =
                          (case fc_args fc of
                             None \<Rightarrow> JObj [(''error'', JStr ''Tool execution failed'')]
                           | Some kvs \<Rightarrow>
                               if stringifiable (obj_get kvs ''widget_type'')
                               then JObj [(''result'', JStr ''Widget rendered successfully.'')]
                               else JObj [(''error'', JStr ''Tool execution failed'')])\<rparr>]"
proof (cases "fc_args fc")
  case None
  with assms(1) show ?thesis
    by (simp add: onmessage_tool_message dispatch_call_def handle_call_def render_widget_def
        addLog_def error_result_def Let_def)
next
  case (Some kvs)
  with assms show ?thesis
    by (simp add: onmessage_tool_message dispatch_call_def handle_call_def render_widget_def
        widget_of_def addLog_def result_of_def error_result_def Let_def)
qed

text \<open>An instance: the discriminator \<^verbatim>\<open>pie_chart\<close>, with a note on display.\<close>

theorem render_widget_unsupported_type_witness:
  "obj_get [(''widget_type'', JStr ''pie_chart''), (''data'', JObj [])] ''widget_type'' \<notin>
      {JStr ''weather_card'', JStr ''stock_chart'', JStr ''map_view'', JStr ''note_pad''} \<and>
   stringifiable (obj_get [(''widget_type'', JStr ''pie_chart''), (''data'', JObj [])] ''widget_type'') \<and>
   activeWidget (fst (onmessage sample_env 0
       (tool_message [\<lparr>fc_id = ''p'', fc_name = ''render_widget'',
          fc_args = Some [(''widget_type'', JStr ''pie_chart''), (''data'', JObj [])]\<rparr>])
       (open_session\<lparr>activeWidget := Some (Note (JStr ''Note'') (JStr ''milk''))\<rparr>)))
     = Some (Note (JStr ''Note'') (JStr ''milk'')) \<and>
   sent (fst (onmessage sample_env 0
       (tool_message [\<lparr>fc_id = ''p'', fc_name = ''render_widget'',
          fc_args = Some [(''widget_type'', JStr ''pie_chart''), (''data'', JObj [])]\<rparr>])
       (open_session\<lparr>activeWidget := Some (Note (JStr ''Note'') (JStr ''milk''))\<rparr>)))
     = sent (open_session\<lparr>activeWidget := Some (Note (JStr ''Note'') (JStr ''milk''))\<rparr>)
        @ [\<lparr>resp_id = ''p'', resp_name = ''render_widget'',
             response = JObj [(''result'', JStr ''Widget rendered successfully.'')]\<rparr>]"
proof -
  let ?kvs = "[(''widget_type'', JStr ''pie_chart''), (''data'', JObj [])]"
  let ?fc = "\<lparr>fc_id = ''p'', fc_name = ''render_widget'', fc_args = Some ?kvs\<rparr>"
  have 1: "fc_name ?fc = ''render_widget''"
    by simp
  have 3: "obj_get ?kvs ''widget_type'' \<notin>
      {JStr ''weather_card'', JStr ''stock_chart'', JStr ''map_view'', JStr ''note_pad''}"
    by (simp add: obj_get_def)
  have 2: "case fc_args ?fc of None \<Rightarrow> True
         | Some kvs \<Rightarrow> obj_get kvs ''widget_type'' \<notin>
             {JStr ''weather_card'', JStr ''stock_chart'', JStr ''map_view'', JStr ''note_pad''}"
    using 3 by simp
  have 4: "stringifiable (obj_get ?kvs ''widget_type'')"
    by (simp add: obj_get_def)
  from render_widget_unsupported_type [OF 1 2, of sample_env 0
      "open_session\<lparr>activeWidget := Some (Note (JStr ''Note'') (JStr ''milk''))\<rparr>"] 3 4
  show ?thesis by simp
qed

subsection \<open>The claims about playback and interruption\<close>

text \<open>
  Claim C1, as stated: for any sequence of chunks without an interruption in between, each
  start is the previous start plus the previous duration. It fails when a chunk arrives after
  the previous one has ended: half a second of audio scheduled at clock 0, then a chunk
  arriving at clock 2, which starts at 2 and not at 0.5.
\<close>

theorem back_to_back_starts_counterexample:
  "scheduled sample_env [(0, ''AAAAA''), (2, ''AAA'')] open_session = [0, 2] \<and>
   chunk_duration sample_env ''AAAAA'' = 1 / 2 \<and>
   scheduled sample_env [(0, ''AAAAA''), (2, ''AAA'')] open_session ! 1 \<noteq>
     scheduled sample_env [(0, ''AAAAA''), (2, ''AAA'')] open_session ! 0
       + chunk_duration sample_env ''AAAAA''"
  by (simp add: scheduled_plan decodable_def chunk_duration_def duration_def sample_env_def
      open_session_eval initial_def)

text \<open>
  Claim C1, amended. A chunk that decodes to a buffer of duration \<open>d\<close> is scheduled at
  \<open>start = max(watermark, now)\<close>, the watermark becomes \<open>start + d\<close>, the new source
  is in the live set and leaves it when its \<^verbatim>\<open>ended\<close> event fires. Hence for chunks
  handled one after another with no interruption in between, the first start is
  \<open>max(watermark0, now1)\<close> and each later start is the later of the previous chunk's end
  and the chunk's own arrival: \<open>s(i+1) = max(s(i) + d(i), now(i+1))\<close>; it is
  \<open>s(i) + d(i)\<close> whenever the chunk arrives no later than the previous chunk ends.
\<close>

theorem playback_schedule:
  "(b \<noteq> [] \<and> decodeAudio e b = Inr buf \<longrightarrow>
      effects (step e (Message now (audio_message b)) s) =
        effects s @ [SourceStart (nextHandle s) (max (nextStartTimeRef s) now) buf] \<and>
      nextStartTimeRef (step e (Message now (audio_message b)) s) =
        max (nextStartTimeRef s) now + duration buf \<and>
      nextHandle s \<in> set (sourcesRef (step e (Message now (audio_message b)) s)) \<and>
      nextHandle s \<notin> set (sourcesRef (step e (SourceEnded (nextHandle s))
                                          (step e (Message now (audio_message b)) s)))) \<and>
   ((\<forall>c\<in>set cs. decodable e (snd c)) \<longrightarrow>
      length (scheduled e cs s) = length cs \<and>
      (cs \<noteq> [] \<longrightarrow> scheduled e cs s ! 0 = max (nextStartTimeRef s) (fst (cs ! 0))) \<and>
      (\<forall>i. Suc i < length cs \<longrightarrow>
           scheduled e cs s ! Suc i =
             max (scheduled e cs s ! i + chunk_duration e (snd (cs ! i))) (fst (cs ! Suc i))) \<and>
      (\<forall>i. Suc i < length cs \<and>
            fst (cs ! Suc i) \<le> scheduled e cs s ! i + chunk_duration e (snd (cs ! i)) \<longrightarrow>
           scheduled e cs s ! Suc i = scheduled e cs s ! i + chunk_duration e (snd (cs ! i))))"
proof (intro conjI impI)
  assume a: "b \<noteq> [] \<and> decodeAudio e b = Inr buf"
  let ?s1 = "step e (Message now (audio_message b)) s"
  from a show "effects ?s1 =
      effects s @ [SourceStart (nextHandle s) (max (nextStartTimeRef s) now) buf]"
    by (simp add: onmessage_audio_message play_audio_ok)
  from a show "nextStartTimeRef ?s1 = max (nextStartTimeRef s) now + duration buf"
    by (simp add: onmessage_audio_message play_audio_ok)
  from a show "nextHandle s \<in> set (sourcesRef ?s1)"
    by (simp add: onmessage_audio_message play_audio_ok set_add_def)
  from a show "nextHandle s \<notin> set (sourcesRef (step e (SourceEnded (nextHandle s)) ?s1))"
    by (simp add: source_ended_def set_delete_def)
next
  assume d: "\<forall>c\<in>set cs. decodable e (snd c)"
  have p: "scheduled e cs s = plan e (nextStartTimeRef s) cs"
    by (rule scheduled_plan [OF d])
  show "length (scheduled e cs s) = length cs"
    by (simp add: p length_plan)
  show "scheduled e cs s ! 0 = max (nextStartTimeRef s) (fst (cs ! 0))" if "cs \<noteq> []"
    using that by (simp add: p plan_first)
  have n: "scheduled e cs s ! Suc i =
      max (scheduled e cs s ! i + chunk_duration e (snd (cs ! i))) (fst (cs ! Suc i))"
    if "Suc i < length cs" for i
    using that by (simp add: p plan_next)
  from n show "\<forall>i. Suc i < length cs \<longrightarrow>
      scheduled e cs s ! Suc i =
        max (scheduled e cs s ! i + chunk_duration e (snd (cs ! i))) (fst (cs ! Suc i))"
    by blast
  from n show "\<forall>i. Suc i < length cs \<and>
        fst (cs ! Suc i) \<le> scheduled e cs s ! i + chunk_duration e (snd (cs ! i)) \<longrightarrow>
      scheduled e cs s ! Suc i = scheduled e cs s ! i + chunk_duration e (snd (cs ! i))"
    by (simp add: max_def)
qed

text \<open>An instance, the example of the specification: chunks of 0.5 s, 0.3 s and 0.2 s
  arriving back to back at clock 0 start at 0, 0.5 and 0.8.\<close>

theorem playback_schedule_witness:
  "decodable sample_env ''AAAAA'' \<and> decodable sample_env ''AAA'' \<and>
   decodable sample_env ''AA'' \<and>
   ''AAAAA'' \<noteq> [] \<and> decodeAudio sample_env ''AAAAA'' = Inr \<lparr>frames = 12000\<rparr> \<and>
   nextStartTimeRef (step sample_env (Message 0 (audio_message ''AAAAA'')) open_session) = 1 / 2 \<and>
   length (scheduled sample_env [(0, ''AAAAA''), (0, ''AAA''), (0, ''AA'')] open_session) = 3 \<and>
   scheduled sample_env [(0, ''AAAAA''), (0, ''AAA''), (0, ''AA'')] open_session ! 0 = 0 \<and>
   scheduled sample_env [(0, ''AAAAA''), (0, ''AAA''), (0, ''AA'')] open_session ! 1 = 1 / 2 \<and>
   scheduled sample_env [(0, ''AAAAA''), (0, ''AAA''), (0, ''AA'')] open_session ! 2 = 4 / 5"
proof -
  let ?cs = "[(0 :: real, ''AAAAA''), (0, ''AAA''), (0, ''AA'')]"
  have d: "\<forall>c\<in>set ?cs. decodable sample_env (snd c)"
    by (simp add: decodable_def sample_env_def)
  have b: "''AAAAA'' \<noteq> [] \<and> decodeAudio sample_env ''AAAAA'' = Inr \<lparr>frames = 12000\<rparr>"
    by (simp add: sample_env_def)
  have w: "nextStartTimeRef open_session = 0"
    by (simp add: open_session_eval initial_def)
  have c: "chunk_duration sample_env ''AAAAA'' = 1 / 2"
    "chunk_duration sample_env ''AAA'' = 3 / 10"
    by (simp_all add: chunk_duration_def duration_def sample_env_def)
  note t = playback_schedule [where e=sample_env and s=open_session and cs="?cs"
      and b="''AAAAA''" and buf="\<lparr>frames = 12000\<rparr>" and now=0]
  from t b w have 1: "nextStartTimeRef
      (step sample_env (Message 0 (audio_message ''AAAAA'')) open_session) = 1 / 2"
    by (simp add: duration_def)
  from t d have 2: "length (scheduled sample_env ?cs open_session) = 3"
    by simp
  from t d w have 3: "scheduled sample_env ?cs open_session ! 0 = 0"
    by simp
  from t d have n: "\<forall>i. Suc i < length ?cs \<longrightarrow>
      scheduled sample_env ?cs open_session ! Suc i =
        max (scheduled sample_env ?cs open_session ! i + chunk_duration sample_env (snd (?cs ! i)))
            (fst (?cs ! Suc i))"
    by blast
  from n [rule_format, of 0] 3 c
  have 4: "scheduled sample_env ?cs open_session ! 1 = 1 / 2"
    by simp
  from n [rule_format, of 1] 4 c
  have 5: "scheduled sample_env ?cs open_session ! 2 = 4 / 5"
    by (simp add: numeral_2_eq_2)
  from d b 1 2 3 4 5 show ?thesis by simp
qed

text \<open>
  Claim C2, as stated: after every interruption the watermark equals the current reading of
  the output clock. It fails once the reference to the output context has been released: the
  handler reads \<^verbatim>\<open>outputContextRef.current?.currentTime || 0\<close> and sets the watermark
  to 0. The state is the one reached when \<^verbatim>\<open>stopSession\<close> runs while
  \<^verbatim>\<open>startSession\<close> waits for the microphone: the session still connects, and an
  interruption arriving at clock reading 5 leaves the watermark at 0.
\<close>

theorem interrupt_watermark_counterexample:
  "sessionPromiseRef stopped_while_starting \<noteq> None \<and>
   is_interrupted interrupt_message \<and>
   nextStartTimeRef (fst (onmessage sample_env 5 interrupt_message stopped_while_starting)) = 0 \<and>
   nextStartTimeRef (fst (onmessage sample_env 5 interrupt_message stopped_while_starting)) \<noteq> 5"
  by (simp add: stopped_while_starting_eval onmessage_def is_interrupted_def
      interrupt_message_def interrupt_fields)

text \<open>
  Claim C2, amended. After an interruption every source that was in the live set has been
  stopped and the live set is empty; the watermark equals the current reading of the output
  clock when the session holds its output context, and 0 when the context has been released.
  In both cases the next chunk handled after it, at a clock reading not before the
  interruption, starts no earlier than the clock reading at the interruption.
\<close>

theorem interrupt_flushes_playback:
  assumes "is_interrupted m"
  shows "sourcesRef (fst (onmessage e now m s)) = [] \<and>
     effects (fst (onmessage e now m s)) = effects s @ map SourceStop (sourcesRef s) \<and>
     (\<forall>h\<in>set (sourcesRef s). SourceStop h \<in> set (effects (fst (onmessage e now m s)))) \<and>
     nextStartTimeRef (fst (onmessage e now m s)) =
       (if outputContextRef s = None then 0 else now) \<and>
     (\<forall>now' b buf. now \<le> now' \<and> b \<noteq> [] \<and> decodeAudio e b = Inr buf \<longrightarrow>
        (\<exists>h t. effects (fst (onmessage e now' (audio_message b) (fst (onmessage e now m s)))) =
                 effects (fst (onmessage e now m s)) @ [SourceStart h t buf] \<and> now \<le> t))"
proof -
  let ?s1 = "fst (onmessage e now m s)"
  have s1: "?s1 = interrupt now s"
    using assms by (simp add: onmessage_def)
  have a: "sourcesRef ?s1 = []"
    and b: "effects ?s1 = effects s @ map SourceStop (sourcesRef s)"
    and c: "nextStartTimeRef ?s1 = (if outputContextRef s = None then 0 else now)"
    using interrupt_fields [of now s] by (simp_all add: s1)
  from b have d: "\<forall>h\<in>set (sourcesRef s). SourceStop h \<in> set (effects ?s1)"
    by simp
  have f: "\<exists>h t. effects (fst (onmessage e now' (audio_message b) ?s1)) =
                 effects ?s1 @ [SourceStart h t buf] \<and> now \<le> t"
    if "now \<le> now'" and "b \<noteq> []" and "decodeAudio e b = Inr buf" for now' b buf
  proof -
    have "effects (fst (onmessage e now' (audio_message b) ?s1)) =
        effects ?s1 @ [SourceStart (nextHandle ?s1) (max (nextStartTimeRef ?s1) now') buf]"
      using that by (simp add: onmessage_audio_message play_audio_ok)
    moreover have "now \<le> max (nextStartTimeRef ?s1) now'"
      using that(1) by simp
    ultimately show ?thesis by blast
  qed
  from a b c d f show ?thesis by blast
qed

text \<open>An instance: the interruption arrives at clock 0.2 while the chunk scheduled at 0 is
  playing; the source is stopped, the watermark falls back from 0.5 to 0.2, and a chunk
  arriving at 0.3 starts at 0.3.\<close>

theorem interrupt_flushes_playback_witness:
  "is_interrupted interrupt_message \<and>
   sourcesRef playing_session = [5] \<and> outputContextRef playing_session \<noteq> None \<and>
   nextStartTimeRef playing_session = 1 / 2 \<and>
   sourcesRef (fst (onmessage sample_env (1 / 5) interrupt_message playing_session)) = [] \<and>
   SourceStop 5 \<in> set (effects (fst (onmessage sample_env (1 / 5) interrupt_message playing_session))) \<and>
   nextStartTimeRef (fst (onmessage sample_env (1 / 5) interrupt_message playing_session)) = 1 / 5 \<and>
   (1 / 5 :: real) \<le> 3 / 10 \<and> ''AAA'' \<noteq> [] \<and> decodeAudio sample_env ''AAA'' = Inr \<lparr>frames = 7200\<rparr> \<and>
   (\<exists>h t. effects (fst (onmessage sample_env (3 / 10) (audio_message ''AAA'')
              (fst (onmessage sample_env (1 / 5) interrupt_message playing_session)))) =
            effects (fst (onmessage sample_env (1 / 5) interrupt_message playing_session))
              @ [SourceStart h t \<lparr>frames = 7200\<rparr>] \<and> 1 / 5 \<le> t)"
proof -
  have i: "is_interrupted interrupt_message"
    by (simp add: is_interrupted_def interrupt_message_def)
  have p: "sourcesRef playing_session = [5]" "outputContextRef playing_session \<noteq> None"
    "nextStartTimeRef playing_session = 1 / 2"
    by (simp_all add: playing_session_eval open_session_eval)
  have k: "(1 / 5 :: real) \<le> 3 / 10 \<and> ''AAA'' \<noteq> [] \<and>
      decodeAudio sample_env ''AAA'' = Inr \<lparr>frames = 7200\<rparr>"
    by (simp add: sample_env_def)
  note t = interrupt_flushes_playback [OF i, of sample_env "1 / 5" playing_session]
  from t p have 1:
    "sourcesRef (fst (onmessage sample_env (1 / 5) interrupt_message playing_session)) = []"
    "SourceStop 5 \<in> set (effects (fst (onmessage sample_env (1 / 5) interrupt_message playing_session)))"
    "nextStartTimeRef (fst (onmessage sample_env (1 / 5) interrupt_message playing_session)) = 1 / 5"
    by simp_all
  from t have "\<forall>now' b buf. 1 / 5 \<le> now' \<and> b \<noteq> [] \<and> decodeAudio sample_env b = Inr buf \<longrightarrow>
        (\<exists>h t. effects (fst (onmessage sample_env now' (audio_message b)
                   (fst (onmessage sample_env (1 / 5) interrupt_message playing_session)))) =
                 effects (fst (onmessage sample_env (1 / 5) interrupt_message playing_session))
                   @ [SourceStart h t buf] \<and> 1 / 5 \<le> t)"
    by blast
  from this [rule_format, of "3 / 10" "''AAA''" "\<lparr>frames = 7200\<rparr>"] k
  have 2: "\<exists>h t. effects (fst (onmessage sample_env (3 / 10) (audio_message ''AAA'')
              (fst (onmessage sample_env (1 / 5) interrupt_message playing_session)))) =
            effects (fst (onmessage sample_env (1 / 5) interrupt_message playing_session))
              @ [SourceStart h t \<lparr>frames = 7200\<rparr>] \<and> 1 / 5 \<le> t"
    by blast
  from i p k 1 2 show ?thesis by blast
qed

text \<open>
  Claim C6, as stated: across all operations of the session only an interruption can decrease
  the watermark. It fails for \<^verbatim>\<open>startSession\<close>, which sets the watermark to the clock of
  the output context it has just created: after the channel closed with the watermark at 0.5,
  the main button starts a session again and the watermark is 0, with no interruption.
\<close>

theorem watermark_monotone_counterexample:
  "\<not> is_interrupt ChannelClose \<and>
   \<not> is_interrupt (MainButton \<lparr>api_key = True, currentTime = 0, userMedia = Inr 101\<rparr>) \<and>
   nextStartTimeRef playing_session = 1 / 2 \<and>
   nextStartTimeRef
     (run sample_env
        [ChannelClose, MainButton \<lparr>api_key = True, currentTime = 0, userMedia = Inr 101\<rparr>]
        playing_session) = 0"
  by (simp add: is_interrupt_def mainButton_def onclose_def startSession_def
      startSession_resume_def startSession_begin_def addLog_def emit_def Let_def
      playing_session_eval open_session_eval initial_def)

text \<open>
  Claim C6, amended. The watermark never decreases across the operations of the session, with
  two exceptions: an interruption, which resets it to the current reading of the output clock
  (to 0 when the output context has been released), and the start of a session, which sets it
  to the clock of the newly created output context. No other callback decreases it: not a
  message with tool calls or audio, not the end of a source, not the channel callbacks, a
  task timer, a capture tick, the camera switch, the payment button, the dismissal of the
  widget, the resumption of a start after the microphone answered, or \<^verbatim>\<open>stopSession\<close>;
  hence no sequence of such callbacks does. In particular the playback step never decreases
  it, whether the chunk decodes or not.
\<close>

theorem watermark_decreases_only_by_interrupt_or_start:
  "(\<not> is_interrupt ev \<and> \<not> is_start ev \<longrightarrow>
      nextStartTimeRef s \<le> nextStartTimeRef (step e ev s)) \<and>
   ((\<forall>x\<in>set evs. \<not> is_interrupt x \<and> \<not> is_start x) \<longrightarrow>
      nextStartTimeRef s \<le> nextStartTimeRef (run e evs s)) \<and>
   nextStartTimeRef s \<le> nextStartTimeRef (fst (play_audio e now b s)) \<and>
   (is_interrupted m \<longrightarrow>
      nextStartTimeRef (step e (Message now m) s) =
        (if outputContextRef s = None then 0 else now)) \<and>
   nextStartTimeRef (step e (StartSessionBegin t) s) = t \<and>
   nextStartTimeRef (step e (StartSession se) s) =
     (if api_key se then currentTime se else nextStartTimeRef s) \<and>
   nextStartTimeRef (step e (MainButton se) s) =
     (if \<not> isActive s \<and> api_key se then currentTime se else nextStartTimeRef s)"
proof (intro conjI impI)
  show "nextStartTimeRef s \<le> nextStartTimeRef (step e ev s)"
    if "\<not> is_interrupt ev \<and> \<not> is_start ev"
    using that by (simp add: step_watermark)
  show "nextStartTimeRef s \<le> nextStartTimeRef (run e evs s)"
    if "\<forall>x\<in>set evs. \<not> is_interrupt x \<and> \<not> is_start x"
    using that by (rule run_watermark)
  show "nextStartTimeRef s \<le> nextStartTimeRef (fst (play_audio e now b s))"
    by (rule play_audio_watermark)
  show "nextStartTimeRef (step e (Message now m) s) =
      (if outputContextRef s = None then 0 else now)"
    if "is_interrupted m"
    using that interrupt_fields [of now s] by (simp add: onmessage_def)
  show "nextStartTimeRef (step e (StartSessionBegin t) s) = t"
    by (simp add: startSession_begin_fields)
  show st: "nextStartTimeRef (step e (StartSession se) s) =
      (if api_key se then currentTime se else nextStartTimeRef s)"
    by (simp add: startSession_def startSession_resume_watermark startSession_begin_fields)
  show "nextStartTimeRef (step e (MainButton se) s) =
      (if \<not> isActive s \<and> api_key se then currentTime se else nextStartTimeRef s)"
    using st by (simp add: mainButton_def stopSession_watermark)
qed

text \<open>An instance: from the playing session (watermark 0.5), an unknown tool call at clock
  0.1, the end of the playing source, the payment button and a chunk arriving at clock 2;
  and an interruption at clock 0.2.\<close>

theorem watermark_decreases_only_by_interrupt_or_start_witness:
  "\<not> is_interrupt (Message (1 / 10)
       (tool_message [\<lparr>fc_id = ''t'', fc_name = ''foo_bar'', fc_args = None\<rparr>])) \<and>
   \<not> is_start (Message (1 / 10)
       (tool_message [\<lparr>fc_id = ''t'', fc_name = ''foo_bar'', fc_args = None\<rparr>])) \<and>
   \<not> is_interrupt (SourceEnded 5) \<and> \<not> is_start (SourceEnded 5) \<and>
   \<not> is_interrupt HandlePayment \<and> \<not> is_start HandlePayment \<and>
   \<not> is_interrupt (Message 2 (audio_message ''AA'')) \<and>
   \<not> is_start (Message 2 (audio_message ''AA'')) \<and>
   nextStartTimeRef playing_session \<le>
     nextStartTimeRef (run sample_env
       [Message (1 / 10) (tool_message [\<lparr>fc_id = ''t'', fc_name = ''foo_bar'', fc_args = None\<rparr>]),
        SourceEnded 5, HandlePayment, Message 2 (audio_message ''AA'')] playing_session) \<and>
   nextStartTimeRef playing_session \<le> nextStartTimeRef (step sample_env (SourceEnded 5) playing_session) \<and>
   is_interrupted interrupt_message \<and> outputContextRef playing_session \<noteq> None \<and>
   nextStartTimeRef (step sample_env (Message (1 / 5) interrupt_message) playing_session) = 1 / 5"
proof -
  let ?evs = "[Message (1 / 10) (tool_message [\<lparr>fc_id = ''t'', fc_name = ''foo_bar'', fc_args = None\<rparr>]),
              SourceEnded 5, HandlePayment, Message 2 (audio_message ''AA'')]"
  have 1: "\<forall>x\<in>set ?evs. \<not> is_interrupt x \<and> \<not> is_start x"
    by (simp add: is_interrupt_def is_start_def is_interrupted_def tool_message_def
        audio_message_def)
  have 2: "\<not> is_interrupt (SourceEnded 5) \<and> \<not> is_start (SourceEnded 5)"
    by (simp add: is_interrupt_def is_start_def)
  have 3: "is_interrupted interrupt_message" "outputContextRef playing_session \<noteq> None"
    by (simp_all add: is_interrupted_def interrupt_message_def playing_session_eval
        open_session_eval)
  note t = watermark_decreases_only_by_interrupt_or_start [where ev="SourceEnded 5"
      and s=playing_session and e=sample_env and evs="?evs" and m=interrupt_message
      and now="1 / 5"]
  from t 1 have a: "nextStartTimeRef playing_session \<le>
      nextStartTimeRef (run sample_env ?evs playing_session)"
    by blast
  from t 2 have b: "nextStartTimeRef playing_session \<le>
      nextStartTimeRef (step sample_env (SourceEnded 5) playing_session)"
    by blast
  from t 3 have c: "nextStartTimeRef
      (step sample_env (Message (1 / 5) interrupt_message) playing_session) = 1 / 5"
    by simp
  from 1 2 3 a b c show ?thesis by simp
qed

text \<open>
  Claim C8, as stated: a decode failure is logged. It fails: \<^verbatim>\<open>onmessage\<close> has no
  \<^verbatim>\<open>try\<close> around the decoder, so the error leaves the callback and neither the
  diagnostic log nor the console record receives an entry.
\<close>

theorem decode_failure_logged_counterexample:
  "snd (onmessage sample_env 1 (audio_message ''!'') open_session) = Some (Rejected ''bad chunk'') \<and>
   logs (fst (onmessage sample_env 1 (audio_message ''!'') open_session)) = logs open_session \<and>
   consoleErrors (fst (onmessage sample_env 1 (audio_message ''!'') open_session)) =
     consoleErrors open_session"
  by (simp add: onmessage_audio_message play_audio_def sample_env_def)

text \<open>
  Claim C8, amended. If decoding an inbound audio chunk fails, the chunk is dropped: no buffer
  is scheduled and none joins the live set. The error leaves \<^verbatim>\<open>onmessage\<close> uncaught and
  the session logs nothing about it: the state is the one the tool calls of the same message
  left, with the watermark raised to the later of watermark and clock. Later chunks are still
  decoded and scheduled as usual.
\<close>

theorem decode_failure_drops_chunk:
  assumes "\<not> is_interrupted m" and "base64Audio m = Some b" and "b \<noteq> []"
    and "decodeAudio e b = Inl err"
  shows "snd (onmessage e now m s) = Some err \<and>
     fst (onmessage e now m s) =
       (case toolCall m of None \<Rightarrow> s | Some fcs \<Rightarrow> dispatch_calls e fcs s)
         \<lparr>nextStartTimeRef := max (nextStartTimeRef s) now\<rparr> \<and>
     effects (fst (onmessage e now m s)) = effects s \<and>
     sourcesRef (fst (onmessage e now m s)) = sourcesRef s \<and>
     (\<forall>now' b' buf. b' \<noteq> [] \<and> decodeAudio e b' = Inr buf \<longrightarrow>
        snd (onmessage e now' (audio_message b') (fst (onmessage e now m s))) = None \<and>
        effects (fst (onmessage e now' (audio_message b') (fst (onmessage e now m s)))) =
          effects s @ [SourceStart (nextHandle s) (max (max (nextStartTimeRef s) now) now') buf])"
proof -
  let ?s1 = "case toolCall m of None \<Rightarrow> s | Some fcs \<Rightarrow> dispatch_calls e fcs s"
  have pb: "playback ?s1 = playback s"
    by (rule tool_loop_playback)
  then have w: "nextStartTimeRef ?s1 = nextStartTimeRef s" and ef: "effects ?s1 = effects s"
    and sr: "sourcesRef ?s1 = sourcesRef s" and nh: "nextHandle ?s1 = nextHandle s"
    by (simp_all add: playback_def)
  have om: "onmessage e now m s = play_audio e now b ?s1"
    using assms(1-3) by (simp add: onmessage_def Let_def)
  have r: "onmessage e now m s = (?s1\<lparr>nextStartTimeRef := max (nextStartTimeRef s) now\<rparr>, Some err)"
    using assms(4) w by (simp add: om play_audio_fail)
  have later: "snd (onmessage e now' (audio_message b') (fst (onmessage e now m s))) = None \<and>
        effects (fst (onmessage e now' (audio_message b') (fst (onmessage e now m s)))) =
          effects s @ [SourceStart (nextHandle s) (max (max (nextStartTimeRef s) now) now') buf]"
    if "b' \<noteq> []" and "decodeAudio e b' = Inr buf" for now' b' buf
    using that ef nh by (simp add: r onmessage_audio_message play_audio_ok)
  from r ef sr later show ?thesis by simp
qed

text \<open>An instance: the chunk \<^verbatim>\<open>!\<close> arrives at clock 1 in the playing session and fails to
  decode; the chunk arriving next at clock 2 is scheduled at 2.\<close>

theorem decode_failure_drops_chunk_witness:
  "\<not> is_interrupted (audio_message ''!'') \<and> base64Audio (audio_message ''!'') = Some ''!'' \<and>
   ''!'' \<noteq> [] \<and> decodeAudio sample_env ''!'' = Inl (Rejected ''bad chunk'') \<and>
   snd (onmessage sample_env 1 (audio_message ''!'') playing_session) = Some (Rejected ''bad chunk'') \<and>
   effects (fst (onmessage sample_env 1 (audio_message ''!'') playing_session)) =
     effects playing_session \<and>
   ''AA'' \<noteq> [] \<and> decodeAudio sample_env ''AA'' = Inr \<lparr>frames = 4800\<rparr> \<and>
   effects (fst (onmessage sample_env 2 (audio_message ''AA'')
              (fst (onmessage sample_env 1 (audio_message ''!'') playing_session)))) =
     effects playing_session @ [SourceStart 6 2 \<lparr>frames = 4800\<rparr>]"
proof -
  have 1: "\<not> is_interrupted (audio_message ''!'')"
    and 2: "base64Audio (audio_message ''!'') = Some ''!''"
    by (simp_all add: is_interrupted_def base64Audio_def audio_message_def)
  have 3: "''!'' \<noteq> []" by simp
  have 4: "decodeAudio sample_env ''!'' = Inl (Rejected ''bad chunk'')"
    by (simp add: sample_env_def)
  have 5: "''AA'' \<noteq> [] \<and> decodeAudio sample_env ''AA'' = Inr \<lparr>frames = 4800\<rparr>"
    by (simp add: sample_env_def)
  have 6: "nextHandle playing_session = 6" "nextStartTimeRef playing_session = 1 / 2"
    by (simp_all add: playing_session_eval)
  note t = decode_failure_drops_chunk [OF 1 2 3 4, of 1 playing_session]
  from t have a: "snd (onmessage sample_env 1 (audio_message ''!'') playing_session)
        = Some (Rejected ''bad chunk'') \<and>
      effects (fst (onmessage sample_env 1 (audio_message ''!'') playing_session))
        = effects playing_session"
    by blast
  from t have "\<forall>now' b' buf. b' \<noteq> [] \<and> decodeAudio sample_env b' = Inr buf \<longrightarrow>
        effects (fst (onmessage sample_env now' (audio_message b')
                   (fst (onmessage sample_env 1 (audio_message ''!'') playing_session)))) =
          effects playing_session @ [SourceStart (nextHandle playing_session)
             (max (max (nextStartTimeRef playing_session) 1) now') buf]"
    by blast
  from this [rule_format, of "''AA''" "\<lparr>frames = 4800\<rparr>" 2] 5 6
  have b: "effects (fst (onmessage sample_env 2 (audio_message ''AA'')
              (fst (onmessage sample_env 1 (audio_message ''!'') playing_session)))) =
     effects playing_session @ [SourceStart 6 2 \<lparr>frames = 4800\<rparr>]"
    by simp
  from 1 2 3 4 5 a b show ?thesis by blast
qed

subsection \<open>The claims about the resource lifecycle\<close>

text \<open>
  Claim C5, as stated: when the microphone cannot be acquired, the session carries on without
  audio capture. It fails: the rejection of \<^verbatim>\<open>getUserMedia\<close> lands in the \<^verbatim>\<open>catch\<close>
  of \<^verbatim>\<open>startSession\<close>, which marks the session inactive, releases the audio contexts and
  never connects.
\<close>

theorem microphone_failure_counterexample:
  "\<not> isActive (startSession \<lparr>api_key = True, currentTime = 0,
                               userMedia = Inl (Rejected ''NotAllowedError'')\<rparr> initial) \<and>
   sessionPromiseRef (startSession \<lparr>api_key = True, currentTime = 0,
                               userMedia = Inl (Rejected ''NotAllowedError'')\<rparr> initial) = None \<and>
   outputContextRef (startSession \<lparr>api_key = True, currentTime = 0,
                               userMedia = Inl (Rejected ''NotAllowedError'')\<rparr> initial) = None \<and>
   effects (startSession \<lparr>api_key = True, currentTime = 0,
                           userMedia = Inl (Rejected ''NotAllowedError'')\<rparr> initial)
     = [ContextClose 0, ContextClose 1] \<and>
   status (startSession \<lparr>api_key = True, currentTime = 0,
                          userMedia = Inl (Rejected ''NotAllowedError'')\<rparr> initial)
     = ''INITIALIZATION FAILED''"
  by (simp add: startSession_def startSession_resume_def startSession_begin_def cleanupAudio_def
      emit_def addLog_def initial_def Let_def)

text \<open>
  Claim C5, amended. If acquiring the microphone fails during session start, the start is
  abandoned: the status reads \<^verbatim>\<open>INITIALIZATION FAILED\<close>, the session is inactive, every
  audio reference is empty, and the diagnostic log gains only the entry written before the
  attempt. No connection is opened: the platform calls of the failed start are the release
  of whatever the component still referenced from before and the closing of the two audio
  contexts just created, with no connect among them, and the only handles allocated are
  those of the two contexts.
\<close>

theorem microphone_failure_aborts_start:
  assumes "api_key se" and "userMedia se = Inl err"
  shows "\<not> isActive (startSession se s) \<and>
     status (startSession se s) = ''INITIALIZATION FAILED'' \<and>
     sessionPromiseRef (startSession se s) = None \<and>
     audioStreamRef (startSession se s) = None \<and>
     scriptProcessorRef (startSession se s) = None \<and>
     sourceNodeRef (startSession se s) = None \<and>
     inputContextRef (startSession se s) = None \<and>
     outputContextRef (startSession se s) = None \<and>
     sourcesRef (startSession se s) = [] \<and>
     ContextClose (nextHandle s) \<in> set (effects (startSession se s)) \<and>
     ContextClose (Suc (nextHandle s)) \<in> set (effects (startSession se s)) \<and>
     logs (startSession se s) = logs s @ [([Lit ''Initializing Audio Context...''], Info)] \<and>
     effects (startSession se s) =
       effects s @ map SourceStop (sourcesRef s)
         @ (case scriptProcessorRef s of None \<Rightarrow> [] | Some h \<Rightarrow> [NodeDisconnect h])
         @ (case sourceNodeRef s of None \<Rightarrow> [] | Some h \<Rightarrow> [NodeDisconnect h])
         @ (case audioStreamRef s of None \<Rightarrow> [] | Some h \<Rightarrow> [TracksStop h])
         @ [ContextClose (nextHandle s), ContextClose (Suc (nextHandle s))]
         @ (case sessionPromiseRef s of None \<Rightarrow> [] | Some h \<Rightarrow> [SessionClose h]) \<and>
     (\<forall>h. SessionConnect h \<notin> set (drop (length (effects s)) (effects (startSession se s)))) \<and>
     nextHandle (startSession se s) = Suc (Suc (nextHandle s))"
proof -
  let ?b = "(startSession_begin (currentTime se) s)\<lparr>status := ''INITIALIZATION FAILED'',
               isActive := False\<rparr>"
  have st: "startSession se s = cleanupAudio ?b"
    using assms by (simp add: startSession_def startSession_resume_def)
  have b: "inputContextRef ?b = Some (nextHandle s)"
    "outputContextRef ?b = Some (Suc (nextHandle s))"
    "logs ?b = logs s @ [([Lit ''Initializing Audio Context...''], Info)]"
    "effects ?b = effects s" "sourcesRef ?b = sourcesRef s"
    "scriptProcessorRef ?b = scriptProcessorRef s" "sourceNodeRef ?b = sourceNodeRef s"
    "audioStreamRef ?b = audioStreamRef s" "sessionPromiseRef ?b = sessionPromiseRef s"
    "nextHandle ?b = Suc (Suc (nextHandle s))"
    by (simp_all add: startSession_begin_fields)
  have fl: "\<not> isActive (cleanupAudio ?b)" "status (cleanupAudio ?b) = ''INITIALIZATION FAILED''"
    "logs (cleanupAudio ?b) = logs ?b" "nextHandle (cleanupAudio ?b) = nextHandle ?b"
    by (simp_all add: cleanupAudio_rest)
  have ef: "effects (cleanupAudio ?b) =
       effects s @ map SourceStop (sourcesRef s)
         @ (case scriptProcessorRef s of None \<Rightarrow> [] | Some h \<Rightarrow> [NodeDisconnect h])
         @ (case sourceNodeRef s of None \<Rightarrow> [] | Some h \<Rightarrow> [NodeDisconnect h])
         @ (case audioStreamRef s of None \<Rightarrow> [] | Some h \<Rightarrow> [TracksStop h])
         @ [ContextClose (nextHandle s), ContextClose (Suc (nextHandle s))]
         @ (case sessionPromiseRef s of None \<Rightarrow> [] | Some h \<Rightarrow> [SessionClose h])"
    by (simp add: cleanupAudio_effects b)
  have nc: "SessionConnect h \<notin> set (drop (length (effects s)) (effects (cleanupAudio ?b)))" for h
    by (auto simp: ef split: option.splits)
  have cc: "ContextClose (nextHandle s) \<in> set (effects (cleanupAudio ?b))"
    "ContextClose (Suc (nextHandle s)) \<in> set (effects (cleanupAudio ?b))"
    by (simp_all add: ef)
  from fl b(3) b(10) cc ef nc cleanupAudio_references_cleared [of ?b] show ?thesis
    unfolding st by simp
qed

text \<open>An instance: permission denied when starting from the freshly mounted component.\<close>

theorem microphone_failure_aborts_start_witness:
  "api_key \<lparr>api_key = True, currentTime = 0, userMedia = Inl (Rejected ''NotAllowedError'')\<rparr> \<and>
   userMedia \<lparr>api_key = True, currentTime = 0, userMedia = Inl (Rejected ''NotAllowedError'')\<rparr>
     = Inl (Rejected ''NotAllowedError'') \<and>
   \<not> isActive (startSession \<lparr>api_key = True, currentTime = 0,
                               userMedia = Inl (Rejected ''NotAllowedError'')\<rparr> initial) \<and>
   effects (startSession \<lparr>api_key = True, currentTime = 0,
                           userMedia = Inl (Rejected ''NotAllowedError'')\<rparr> initial)
     = [ContextClose 0, ContextClose 1] \<and>
   nextHandle (startSession \<lparr>api_key = True, currentTime = 0,
                              userMedia = Inl (Rejected ''NotAllowedError'')\<rparr> initial) = 2 \<and>
   logs (startSession \<lparr>api_key = True, currentTime = 0,
                         userMedia = Inl (Rejected ''NotAllowedError'')\<rparr> initial)
     = [([Lit ''Initializing Audio Context...''], Info)]"
proof -
  let ?se = "\<lparr>api_key = True, currentTime = 0, userMedia = Inl (Rejected ''NotAllowedError'')\<rparr>"
  have 1: "api_key ?se" and 2: "userMedia ?se = Inl (Rejected ''NotAllowedError'')"
    by simp_all
  have 3: "nextHandle initial = 0" "logs initial = []" "effects initial = []"
    "sourcesRef initial = []" "scriptProcessorRef initial = None" "sourceNodeRef initial = None"
    "audioStreamRef initial = None" "sessionPromiseRef initial = None"
    by (simp_all add: initial_def)
  from microphone_failure_aborts_start [OF 1 2, of initial] 3 show ?thesis
    by simp
qed

text \<open>
  Claim C7, as stated: after \<^verbatim>\<open>stopSession\<close> zero acquired devices, timers and channels
  remain. It fails in two ways. The one-shot timers set by tool handlers are not cancelled:
  the two-second timer of an \<^verbatim>\<open>order_food\<close> call is still pending after two stops, fires,
  and moves the task to the payment state. And \<^verbatim>\<open>stopSession\<close> releases only what the
  reference cells hold: after the channel closed and the main button started a session again,
  the cells hold the new stream and contexts, and two stops never stop the tracks of the first
  microphone stream (100) nor close the first two audio contexts (0 and 1).
\<close>

theorem stop_leaves_nothing_counterexample:
  "timers (stopSession (stopSession ordering_session)) = [(2000, AwaitPayment)] \<and>
   task_status (task (stopSession (stopSession ordering_session))) = Processing \<and>
   task_status (task (step sample_env (TimerFired 0)
                        (stopSession (stopSession ordering_session)))) = Payment \<and>
   audioStreamRef playing_session = Some 100 \<and>
   inputContextRef playing_session = Some 0 \<and>
   outputContextRef playing_session = Some 1 \<and>
   TracksStop 100 \<notin> set (effects (stopSession (stopSession restarted_session))) \<and>
   ContextClose 0 \<notin> set (effects (stopSession (stopSession restarted_session))) \<and>
   ContextClose 1 \<notin> set (effects (stopSession (stopSession restarted_session)))"
proof -
  let ?o = "stopSession (stopSession ordering_session)"
  let ?r = "stopSession (stopSession restarted_session)"
  have o1: "timers ?o = [(2000, AwaitPayment)]"
    by (simp add: stopSession_twice stopSession_timers ordering_session_eval)
  have o2: "task ?o = task ordering_session"
    by (simp add: stopSession_twice stopSession_task)
  then have o3: "task_status (task ?o) = Processing"
    by (simp add: ordering_session_eval)
  have o4: "task_status (task (step sample_env (TimerFired 0) ?o)) = Payment"
    using o1 by (simp add: timer_fired_def)
  have p: "audioStreamRef playing_session = Some 100"
    "inputContextRef playing_session = Some 0" "outputContextRef playing_session = Some 1"
    by (simp_all add: playing_session_eval open_session_eval)
  have "effects ?r = effects restarted_session @ release_calls restarted_session"
    by (simp add: stopSession_twice stopSession_effects)
  then have r: "effects ?r =
      [SessionConnect 2, SourceStart 5 0 \<lparr>frames = 12000\<rparr>, SessionConnect 8,
       SourceStop 5, NodeDisconnect 4, NodeDisconnect 3, TracksStop 101,
       ContextClose 6, ContextClose 7, SessionClose 8]"
    by (simp add: release_calls_def restarted_session_eval)
  have r1: "TracksStop 100 \<notin> set (effects ?r)" "ContextClose 0 \<notin> set (effects ?r)"
    "ContextClose 1 \<notin> set (effects ?r)"
    by (simp_all add: r)
  from o1 o3 o4 p r1 show ?thesis by simp
qed

text \<open>
  Claim C7, amended. \<^verbatim>\<open>stopSession\<close> is idempotent. None of the platform calls it makes
  can throw on a handle the session holds, so it has no failing branch and neither call
  raises. After the first call every reference cell of the session is empty and no source is
  live, and the platform calls made are exactly the releases of what was referenced: frame
  interval cleared, camera tracks stopped, sources stopped, script processor and source node
  disconnected, microphone tracks stopped, both audio contexts closed, the channel closed. The
  second call changes nothing, not even the trace of platform calls. The pending one-shot
  timers of tool handlers are left as they are, and what is no longer referenced is not
  released.
\<close>

theorem stop_session_idempotent:
  "references_cleared (stopSession s) \<and>
   stopSession (stopSession s) = stopSession s \<and>
   references_cleared (stopSession (stopSession s)) \<and>
   effects (stopSession s) = effects s @ release_calls s \<and>
   effects (stopSession (stopSession s)) = effects (stopSession s) \<and>
   timers (stopSession s) = timers s \<and>
   (\<forall>h\<in>set (sourcesRef s). SourceStop h \<in> set (effects (stopSession s))) \<and>
   (\<forall>h. scriptProcessorRef s = Some h \<longrightarrow> NodeDisconnect h \<in> set (effects (stopSession s))) \<and>
   (\<forall>h. sourceNodeRef s = Some h \<longrightarrow> NodeDisconnect h \<in> set (effects (stopSession s))) \<and>
   (\<forall>h. audioStreamRef s = Some h \<longrightarrow> TracksStop h \<in> set (effects (stopSession s))) \<and>
   (\<forall>h. inputContextRef s = Some h \<longrightarrow> ContextClose h \<in> set (effects (stopSession s))) \<and>
   (\<forall>h. outputContextRef s = Some h \<longrightarrow> ContextClose h \<in> set (effects (stopSession s))) \<and>
   (\<forall>h. sessionPromiseRef s = Some h \<longrightarrow> SessionClose h \<in> set (effects (stopSession s))) \<and>
   (\<forall>h. frameIntervalRef s = Some h \<longrightarrow> IntervalClear h \<in> set (effects (stopSession s))) \<and>
   (\<forall>h. videoStreamRef s = Some h \<longrightarrow> TracksStop h \<in> set (effects (stopSession s)))"
proof -
  have 1: "references_cleared (stopSession s)"
    by (rule stopSession_references_cleared)
  have 2: "stopSession (stopSession s) = stopSession s"
    by (rule stopSession_twice)
  have e: "effects (stopSession s) = effects s @ release_calls s"
    by (rule stopSession_effects)
  have t: "timers (stopSession s) = timers s"
    by (rule stopSession_timers)
  have 3: "\<forall>h\<in>set (sourcesRef s). SourceStop h \<in> set (effects (stopSession s))"
    by (simp add: stopSession_effects release_calls_def)
  have 4: "\<forall>h. scriptProcessorRef s = Some h \<longrightarrow> NodeDisconnect h \<in> set (effects (stopSession s))"
    "\<forall>h. sourceNodeRef s = Some h \<longrightarrow> NodeDisconnect h \<in> set (effects (stopSession s))"
    "\<forall>h. audioStreamRef s = Some h \<longrightarrow> TracksStop h \<in> set (effects (stopSession s))"
    "\<forall>h. inputContextRef s = Some h \<longrightarrow> ContextClose h \<in> set (effects (stopSession s))"
    by (simp_all add: stopSession_effects release_calls_def)
  have 5: "\<forall>h. outputContextRef s = Some h \<longrightarrow> ContextClose h \<in> set (effects (stopSession s))"
    "\<forall>h. sessionPromiseRef s = Some h \<longrightarrow> SessionClose h \<in> set (effects (stopSession s))"
    "\<forall>h. frameIntervalRef s = Some h \<longrightarrow> IntervalClear h \<in> set (effects (stopSession s))"
    "\<forall>h. videoStreamRef s = Some h \<longrightarrow> TracksStop h \<in> set (effects (stopSession s))"
    by (simp_all add: stopSession_effects release_calls_def)
  from 1 2 e t 3 4 5 show ?thesis by simp
qed

text \<open>An instance: stopping the sample session while audio is playing and the camera is
  on.\<close>

theorem stop_session_idempotent_witness:
  "5 \<in> set (sourcesRef busy_session) \<and> SourceStop 5 \<in> set (effects (stopSession busy_session)) \<and>
   scriptProcessorRef busy_session = Some 4 \<and>
   NodeDisconnect 4 \<in> set (effects (stopSession busy_session)) \<and>
   sourceNodeRef busy_session = Some 3 \<and>
   NodeDisconnect 3 \<in> set (effects (stopSession busy_session)) \<and>
   audioStreamRef busy_session = Some 100 \<and>
   TracksStop 100 \<in> set (effects (stopSession busy_session)) \<and>
   inputContextRef busy_session = Some 0 \<and>
   ContextClose 0 \<in> set (effects (stopSession busy_session)) \<and>
   outputContextRef busy_session = Some 1 \<and>
   ContextClose 1 \<in> set (effects (stopSession busy_session)) \<and>
   sessionPromiseRef busy_session = Some 2 \<and>
   SessionClose 2 \<in> set (effects (stopSession busy_session)) \<and>
   frameIntervalRef busy_session = Some 6 \<and>
   IntervalClear 6 \<in> set (effects (stopSession busy_session)) \<and>
   videoStreamRef busy_session = Some 200 \<and>
   TracksStop 200 \<in> set (effects (stopSession busy_session)) \<and>
   references_cleared (stopSession busy_session) \<and>
   stopSession (stopSession busy_session) = stopSession busy_session \<and>
   effects (stopSession (stopSession busy_session)) = effects (stopSession busy_session)"
proof -
  have f: "5 \<in> set (sourcesRef busy_session)"
    "scriptProcessorRef busy_session = Some 4" "sourceNodeRef busy_session = Some 3"
    "audioStreamRef busy_session = Some 100" "inputContextRef busy_session = Some 0"
    "outputContextRef busy_session = Some 1" "sessionPromiseRef busy_session = Some 2"
    "frameIntervalRef busy_session = Some 6" "videoStreamRef busy_session = Some 200"
    by (simp_all add: busy_session_eval playing_session_eval open_session_eval)
  from stop_session_idempotent [of busy_session] f show ?thesis
    by blast
qed

end
